theory Spec2Isabelle
  imports Complex_Main "HOL-Library.Signed_Division"
begin

section \<open>Tensor metadata and C++ integers\<close>

text \<open>
  The two \<open>rotary_embedding\<close> entry points only read the metadata of their tensor
  arguments: sizes, strides, element type and data pointer. A tensor is therefore a
  record of its metadata; sizes and strides are kept together per dimension (they always
  have the same length) and are non-negative, as the tensor library guarantees.
\<close>

datatype ScalarType =
  kByte | kChar | kShort | kInt | kLong | kHalf | kFloat | kDouble | kBFloat16 | kBool

record tensor =
  dims :: "(nat \<times> nat) list"   \<comment> \<open>(size, stride) of every dimension\<close>
  dtype :: ScalarType
  device :: int                 \<comment> \<open>index of the device the tensor lives on\<close>
  data :: nat                   \<comment> \<open>address of the first element\<close>

datatype error =
    IndexError          \<comment> \<open>\<open>size(d)\<close>/\<open>stride(d)\<close>: dimension out of range\<close>
  | DTypeMismatch       \<comment> \<open>\<open>data_ptr<T>()\<close> on a tensor whose element type is not \<open>T\<close>\<close>
  | NotImplemented      \<comment> \<open>the dtype dispatch macro has no case for the element type\<close>
  | DTypeHelperError    \<comment> \<open>failure reported by \<open>get_dtype_from_torch\<close>\<close>
  | DivideByZero        \<comment> \<open>integer division by zero (undefined in C++, modelled as a fault)\<close>

definition bind_err :: "error + 'a \<Rightarrow> ('a \<Rightarrow> error + 'b) \<Rightarrow> error + 'b" where
  "bind_err r f = (case r of Inl e \<Rightarrow> Inl e | Inr v \<Rightarrow> f v)"

text \<open>
  \<open>int64_t \<rightarrow> int\<close> and \<open>int64_t \<rightarrow> unsigned\<close> conversions keep the low 32 bits.
  Nothing in the source checks a sum or a product for overflow, and the compiled code
  wraps: an \<open>int\<close> result is reduced to 32 bits, an \<open>int64_t\<close> result to 64 bits, in
  two's complement.
\<close>

definition to_int32 :: "int \<Rightarrow> int" where
  "to_int32 x = (x + 2 ^ 31) mod 2 ^ 32 - 2 ^ 31"

definition to_uint32 :: "int \<Rightarrow> int" where
  "to_uint32 x = x mod 2 ^ 32"

definition to_int64 :: "int \<Rightarrow> int" where
  "to_int64 x = (x + 2 ^ 63) mod 2 ^ 64 - 2 ^ 63"

text \<open>C++ \<open>/\<close> on integers truncates towards zero; a zero divisor is a fault.\<close>

definition int_div :: "int \<Rightarrow> int \<Rightarrow> error + int" where
  "int_div a b = (if b = 0 then Inl DivideByZero else Inr (a sdiv b))"

text \<open>\<open>int * int\<close> and \<open>int64_t + int64_t\<close>, wrapping.\<close>

definition int_mul :: "int \<Rightarrow> int \<Rightarrow> int" where
  "int_mul a b = to_int32 (a * b)"

definition int64_add :: "int \<Rightarrow> int \<Rightarrow> int" where
  "int64_add a b = to_int64 (a + b)"

definition numel :: "tensor \<Rightarrow> int" where
  "numel t = int (prod_list (map fst (dims t)))"

text \<open>
  \<open>size(d)\<close> and \<open>stride(d)\<close> accept \<open>-n \<le> d < n\<close> for a tensor of \<open>n\<close> dimensions, a
  negative \<open>d\<close> counting from the end; anything else raises.
\<close>

definition maybe_wrap_dim :: "int \<Rightarrow> nat \<Rightarrow> error + nat" where
  "maybe_wrap_dim d n =
     (if - int n \<le> d \<and> d < int n then Inr (nat (if d < 0 then d + int n else d))
      else Inl IndexError)"

definition tensor_size :: "tensor \<Rightarrow> int \<Rightarrow> error + int" where
  "tensor_size t d =
     bind_err (maybe_wrap_dim d (length (dims t))) (\<lambda>i. Inr (int (fst (dims t ! i))))"

definition tensor_stride :: "tensor \<Rightarrow> int \<Rightarrow> error + int" where
  "tensor_stride t d =
     bind_err (maybe_wrap_dim d (length (dims t))) (\<lambda>i. Inr (int (snd (dims t ! i))))"

text \<open>\<open>data_ptr<T>()\<close> checks the element type; the untyped \<open>data_ptr()\<close> does not.\<close>

definition data_ptr_typed :: "tensor \<Rightarrow> ScalarType \<Rightarrow> error + nat" where
  "data_ptr_typed t ty = (if dtype t = ty then Inr (data t) else Inl DTypeMismatch)"

definition data_ptr :: "tensor \<Rightarrow> nat" where
  "data_ptr t = data t"

section \<open>Kernel invocations\<close>

text \<open>
  The ten arguments both backends hand to their kernel, in the order of the GPU launch:
  four pointers and the shape values computed by the caller.
\<close>

record kernel_args =
  arg_positions :: nat
  arg_query :: nat
  arg_key :: nat
  arg_cos_sin_cache :: nat
  arg_rot_dim :: int
  arg_query_stride :: int
  arg_key_stride :: int
  arg_num_heads :: int
  arg_num_kv_heads :: int
  arg_head_size :: int

text \<open>
  The NPU backend calls \<open>rotary_embedding_kernel\<close> with the element type, the style
  flag, the query and key pointers and strides a second time (source equals
  destination), the token count, the per-core loop count and the core count.
\<close>

record npu_call = kernel_args +
  arg_dtype_num :: nat
  arg_is_neox :: bool
  arg_query_dst :: nat
  arg_key_dst :: nat
  arg_dst_query_stride :: int
  arg_dst_key_stride :: int
  arg_num_tokens :: int
  arg_loop_cnt :: int
  arg_aivNum :: int

text \<open>
  The GPU backend launches \<open>rotary_embedding_kernel<scalar_t, IS_NEOX><<<grid, block>>>\<close>.
\<close>

record launch = kernel_args +
  grid_x :: int
  block_x :: int
  scalar_t :: ScalarType
  IS_NEOX :: bool

section \<open>The NPU backend: \<open>vllm_ascend::rotary_embedding\<close>\<close>

text \<open>
  The handler given to \<open>OpCommand\<close>. \<open>get_dtype_from_torch\<close> (declared in
  \<open>utils.h\<close>) and the platform query are parameters: the first maps an element type to
  the kernel's type number or fails, the second gives, for a device id, the number of
  cores of each type. The handler always asks for device 0. Its arithmetic is that of
  \<open>int64_t\<close>, the core count being a \<open>uint32_t\<close> and the loop count converted to one.
\<close>

definition custom_handler ::
  "(ScalarType \<Rightarrow> error + nat) \<Rightarrow> (int \<Rightarrow> string \<Rightarrow> nat) \<Rightarrow> ScalarType \<Rightarrow> bool \<Rightarrow> int \<Rightarrow>
   nat \<Rightarrow> nat \<Rightarrow> nat \<Rightarrow> nat \<Rightarrow> int \<Rightarrow> int \<Rightarrow> int \<Rightarrow> int \<Rightarrow> int \<Rightarrow> int \<Rightarrow> error + npu_call" where
  "custom_handler get_dtype_from_torch GetRuntimePlatformInfosByDevice scalar_type is_neox
     num_tokens position_ids_ptr query_ptr key_ptr cos_sin_cache_ptr rot_dim query_stride
     key_stride num_heads num_kv_heads head_size =
   bind_err (get_dtype_from_torch scalar_type) (\<lambda>dtype_num.
   let device_id = 0;
       platform_infos = GetRuntimePlatformInfosByDevice device_id;
       aivNum = to_uint32 (int (platform_infos ''aiv''))
   in
   bind_err (int_div (int64_add (int64_add num_tokens aivNum) (- 1)) aivNum) (\<lambda>q.
   let loop_cnt = to_uint32 q in
   Inr \<lparr> arg_positions = position_ids_ptr, arg_query = query_ptr, arg_key = key_ptr,
         arg_cos_sin_cache = cos_sin_cache_ptr, arg_rot_dim = rot_dim,
         arg_query_stride = query_stride, arg_key_stride = key_stride,
         arg_num_heads = num_heads, arg_num_kv_heads = num_kv_heads,
         arg_head_size = head_size,
         arg_dtype_num = dtype_num, arg_is_neox = is_neox,
         arg_query_dst = query_ptr, arg_key_dst = key_ptr,
         arg_dst_query_stride = query_stride, arg_dst_key_stride = key_stride,
         arg_num_tokens = num_tokens, arg_loop_cnt = loop_cnt, arg_aivNum = aivNum \<rparr>))"

text \<open>
  The entry point. Its last argument is the sequence of kernel calls already made on the
  device stream; the result is the outcome of the call and the stream afterwards. Every
  statement that can fail comes before \<open>cmd.Run()\<close>, which runs the handler. Getting
  the current stream and building the command are taken to succeed.
\<close>

definition vllm_ascend_rotary_embedding ::
  "(ScalarType \<Rightarrow> error + nat) \<Rightarrow> (int \<Rightarrow> string \<Rightarrow> nat) \<Rightarrow>
   tensor \<Rightarrow> tensor \<Rightarrow> tensor \<Rightarrow> int \<Rightarrow> tensor \<Rightarrow> bool \<Rightarrow> npu_call list \<Rightarrow>
   (error + unit) \<times> npu_call list" where
  "vllm_ascend_rotary_embedding get_dtype_from_torch GetRuntimePlatformInfosByDevice
     positions query key head_size cos_sin_cache is_neox stream =
   (case
      bind_err (tensor_size query (-1)) (\<lambda>w.
      bind_err (int_div (numel query) w) (\<lambda>num_tokens.
      bind_err (tensor_size cos_sin_cache 1) (\<lambda>c1.
      let rot_dim = to_int32 c1 in
      bind_err (tensor_size query (-1)) (\<lambda>qw.
      bind_err (int_div qw head_size) (\<lambda>nh.
      let num_heads = to_int32 nh in
      bind_err (tensor_size key (-1)) (\<lambda>kw.
      bind_err (int_div kw head_size) (\<lambda>nk.
      let num_kv_heads = to_int32 nk in
      bind_err (data_ptr_typed positions kLong) (\<lambda>position_ids_ptr.
      let query_ptr = data_ptr query;
          key_ptr = data_ptr key;
          cos_sin_cache_ptr = data_ptr cos_sin_cache
      in
      bind_err (tensor_stride query (-2)) (\<lambda>query_stride.
      bind_err (tensor_stride key (-2)) (\<lambda>key_stride.
      let scalar_type = dtype query in
      custom_handler get_dtype_from_torch GetRuntimePlatformInfosByDevice scalar_type
        is_neox num_tokens position_ids_ptr query_ptr key_ptr cos_sin_cache_ptr rot_dim
        query_stride key_stride num_heads num_kv_heads head_size))))))))))
    of Inl e \<Rightarrow> (Inl e, stream)
     | Inr call \<Rightarrow> (Inr (), stream @ [call]))"

section \<open>The generic GPU backend: \<open>rotary_embedding\<close>\<close>

text \<open>
  The limits of the device a launch is checked against. A launch whose grid or block is
  empty or exceeds them is refused by the runtime; the caller does not look at the
  launch status and returns normally.
\<close>

record cudaDeviceProp =
  maxThreadsPerBlock :: int
  maxGridSize_x :: int

definition launch_valid :: "cudaDeviceProp \<Rightarrow> launch \<Rightarrow> bool" where
  "launch_valid prop l \<longleftrightarrow>
     1 \<le> grid_x l \<and> grid_x l \<le> maxGridSize_x prop \<and>
     1 \<le> block_x l \<and> block_x l \<le> maxThreadsPerBlock prop"

text \<open>
  \<open>VLLM_DISPATCH_FLOATING_TYPES\<close> is a parameter: the set of element types the
  dispatch macro has a case for.
\<close>

definition rotary_embedding ::
  "(ScalarType \<Rightarrow> bool) \<Rightarrow> cudaDeviceProp \<Rightarrow>
   tensor \<Rightarrow> tensor \<Rightarrow> tensor \<Rightarrow> int \<Rightarrow> tensor \<Rightarrow> bool \<Rightarrow> launch list \<Rightarrow>
   (error + unit) \<times> launch list" where
  "rotary_embedding VLLM_DISPATCH_FLOATING_TYPES prop
     positions query key head_size cos_sin_cache is_neox stream =
   (case
      bind_err (tensor_size query (-1)) (\<lambda>w.
      bind_err (int_div (numel query) w) (\<lambda>num_tokens.
      bind_err (tensor_size cos_sin_cache 1) (\<lambda>c1.
      let rot_dim = to_int32 c1 in
      bind_err (tensor_size query (-1)) (\<lambda>qw.
      bind_err (int_div qw head_size) (\<lambda>nh.
      let num_heads = to_int32 nh in
      bind_err (tensor_size key (-1)) (\<lambda>kw.
      bind_err (int_div kw head_size) (\<lambda>nk.
      let num_kv_heads = to_int32 nk in
      bind_err (tensor_stride query (-2)) (\<lambda>query_stride.
      bind_err (tensor_stride key (-2)) (\<lambda>key_stride.
      let grid = to_uint32 num_tokens;
          block = to_uint32 (min (int_mul num_heads rot_dim sdiv 2) 512);
          scalar_type = dtype query
      in
      if \<not> VLLM_DISPATCH_FLOATING_TYPES scalar_type then Inl NotImplemented
      else
      bind_err (data_ptr_typed positions kLong) (\<lambda>positions_ptr.
      bind_err (data_ptr_typed query scalar_type) (\<lambda>query_ptr.
      bind_err (data_ptr_typed key scalar_type) (\<lambda>key_ptr.
      bind_err (data_ptr_typed cos_sin_cache scalar_type) (\<lambda>cos_sin_cache_ptr.
      Inr \<lparr> arg_positions = positions_ptr, arg_query = query_ptr, arg_key = key_ptr,
            arg_cos_sin_cache = cos_sin_cache_ptr, arg_rot_dim = rot_dim,
            arg_query_stride = query_stride, arg_key_stride = key_stride,
            arg_num_heads = num_heads, arg_num_kv_heads = num_kv_heads,
            arg_head_size = head_size,
            grid_x = grid, block_x = block, scalar_t = scalar_type,
            IS_NEOX = (if is_neox then True else False) \<rparr>)))))))))))))
    of Inl e \<Rightarrow> (Inl e, stream)
     | Inr l \<Rightarrow> (Inr (), if launch_valid prop l then stream @ [l] else stream))"

section \<open>Closed forms of a successful call\<close>

text \<open>
  The conditions under which each entry point gets as far as its kernel, and the kernel
  invocation it then makes, written out once; the lemmas below prove that they are what
  the entry points compute.
\<close>

definition npu_ok :: "(ScalarType \<Rightarrow> error + nat) \<Rightarrow> (int \<Rightarrow> string \<Rightarrow> nat) \<Rightarrow> tensor \<Rightarrow> tensor \<Rightarrow> tensor \<Rightarrow> int \<Rightarrow> tensor \<Rightarrow> bool" where
  "npu_ok gd pf positions query key head_size cache \<longleftrightarrow>
     2 \<le> length (dims query) \<and> fst (last (dims query)) \<noteq> 0 \<and> 2 \<le> length (dims cache) \<and>
     head_size \<noteq> 0 \<and> 2 \<le> length (dims key) \<and> dtype positions = kLong \<and>
     (\<exists>n. gd (dtype query) = Inr n) \<and> to_uint32 (int (pf 0 ''aiv'')) \<noteq> 0"

definition npu_call_of :: "nat \<Rightarrow> int \<Rightarrow> tensor \<Rightarrow> tensor \<Rightarrow> tensor \<Rightarrow> int \<Rightarrow> tensor \<Rightarrow> bool \<Rightarrow> npu_call" where
  "npu_call_of n aiv positions query key head_size cache is_neox =
       \<lparr> arg_positions = data positions, arg_query = data query, arg_key = data key,
         arg_cos_sin_cache = data cache,
         arg_rot_dim = to_int32 (int (fst (dims cache ! 1))),
         arg_query_stride = int (snd (dims query ! (length (dims query) - 2))),
         arg_key_stride = int (snd (dims key ! (length (dims key) - 2))),
         arg_num_heads = to_int32 (int (fst (last (dims query))) sdiv head_size),
         arg_num_kv_heads = to_int32 (int (fst (last (dims key))) sdiv head_size),
         arg_head_size = head_size,
         arg_dtype_num = n, arg_is_neox = is_neox,
         arg_query_dst = data query, arg_key_dst = data key,
         arg_dst_query_stride = int (snd (dims query ! (length (dims query) - 2))),
         arg_dst_key_stride = int (snd (dims key ! (length (dims key) - 2))),
         arg_num_tokens = numel query sdiv int (fst (last (dims query))),
         arg_loop_cnt =
           to_uint32 (int64_add (int64_add (numel query sdiv int (fst (last (dims query)))) aiv)
                        (- 1) sdiv aiv),
         arg_aivNum = aiv \<rparr>"

definition gpu_ok :: "(ScalarType \<Rightarrow> bool) \<Rightarrow> tensor \<Rightarrow> tensor \<Rightarrow> tensor \<Rightarrow> int \<Rightarrow> tensor \<Rightarrow> bool" where
  "gpu_ok disp positions query key head_size cache \<longleftrightarrow>
     2 \<le> length (dims query) \<and> fst (last (dims query)) \<noteq> 0 \<and> 2 \<le> length (dims cache) \<and>
     head_size \<noteq> 0 \<and> 2 \<le> length (dims key) \<and>
     disp (dtype query) \<and> dtype positions = kLong \<and>
     dtype key = dtype query \<and> dtype cache = dtype query"

definition launch_of :: "tensor \<Rightarrow> tensor \<Rightarrow> tensor \<Rightarrow> int \<Rightarrow> tensor \<Rightarrow> bool \<Rightarrow> launch" where
  "launch_of positions query key head_size cache is_neox =
       \<lparr> arg_positions = data positions, arg_query = data query, arg_key = data key,
         arg_cos_sin_cache = data cache,
         arg_rot_dim = to_int32 (int (fst (dims cache ! 1))),
         arg_query_stride = int (snd (dims query ! (length (dims query) - 2))),
         arg_key_stride = int (snd (dims key ! (length (dims key) - 2))),
         arg_num_heads = to_int32 (int (fst (last (dims query))) sdiv head_size),
         arg_num_kv_heads = to_int32 (int (fst (last (dims key))) sdiv head_size),
         arg_head_size = head_size,
         grid_x = to_uint32 (numel query sdiv int (fst (last (dims query)))),
         block_x =
           to_uint32 (min (int_mul (to_int32 (int (fst (last (dims query))) sdiv head_size))
                             (to_int32 (int (fst (dims cache ! 1)))) sdiv 2) 512),
         scalar_t = dtype query, IS_NEOX = is_neox \<rparr>"


section \<open>The rotary transform\<close>

text \<open>
  Modelled from the spec: the body of the device kernel \<open>rotary_embedding_kernel\<close>,
  which both entry points invoke, is not among the sources. The definitions of this
  section follow section 4.2 of the specification. Buffers are flat memories indexed by
  element offset, the element of head \<open>h\<close> of token \<open>t\<close> at offset \<open>j\<close> being at
  \<open>t * stride + h * head_size + j\<close>; the cache is a table indexed by position id and
  column; element values are reals.
\<close>

text \<open>
  Modelled from the spec: the offsets, within a head's slice, of the two elements of
  rotation pair \<open>i\<close>. Neox style pairs element \<open>i\<close> with element \<open>i + rot_dim / 2\<close>;
  interleaved style pairs the adjacent elements \<open>2 i\<close> and \<open>2 i + 1\<close>. The cosine and
  the sine of the pair are read from the same two columns of the cache row (first half and
  second half in neox style, the analogous interleaved layout otherwise).
\<close>

definition x_index :: "bool \<Rightarrow> nat \<Rightarrow> nat \<Rightarrow> nat" where
  "x_index is_neox embed_dim i = (if is_neox then i else 2 * i)"

definition y_index :: "bool \<Rightarrow> nat \<Rightarrow> nat \<Rightarrow> nat" where
  "y_index is_neox embed_dim i = (if is_neox then i + embed_dim else 2 * i + 1)"

text \<open>
  Modelled from the spec: the rotation of one pair of the slice starting at \<open>base\<close>, in
  place: \<open>x1' = x1 * cos - x2 * sin\<close> and \<open>x2' = x2 * cos + x1 * sin\<close>, both computed
  from the values read before either is written.
\<close>

definition rotate_pair ::
  "bool \<Rightarrow> (nat \<Rightarrow> real) \<Rightarrow> nat \<Rightarrow> nat \<Rightarrow> nat \<Rightarrow> (nat \<Rightarrow> real) \<Rightarrow> (nat \<Rightarrow> real)" where
  "rotate_pair is_neox row rot_dim base i buf =
     (let c = row (x_index is_neox (rot_dim div 2) i);
          s = row (y_index is_neox (rot_dim div 2) i);
          x1 = buf (base + x_index is_neox (rot_dim div 2) i);
          x2 = buf (base + y_index is_neox (rot_dim div 2) i)
      in buf (base + x_index is_neox (rot_dim div 2) i := x1 * c - x2 * s,
              base + y_index is_neox (rot_dim div 2) i := x2 * c + x1 * s))"

text \<open>Modelled from the spec: one head, every pair index \<open>i\<close> in \<open>[0, rot_dim / 2)\<close>.\<close>

definition rotate_head ::
  "bool \<Rightarrow> (nat \<Rightarrow> real) \<Rightarrow> nat \<Rightarrow> nat \<Rightarrow> (nat \<Rightarrow> real) \<Rightarrow> (nat \<Rightarrow> real)" where
  "rotate_head is_neox row rot_dim base buf =
     fold (rotate_pair is_neox row rot_dim base) [0..<rot_dim div 2] buf"

text \<open>Modelled from the spec: one token, every head of the row that starts at \<open>base\<close>.\<close>

definition rotate_token ::
  "bool \<Rightarrow> (nat \<Rightarrow> real) \<Rightarrow> nat \<Rightarrow> nat \<Rightarrow> nat \<Rightarrow> nat \<Rightarrow> (nat \<Rightarrow> real) \<Rightarrow> (nat \<Rightarrow> real)" where
  "rotate_token is_neox row rot_dim head_size heads base buf =
     fold (\<lambda>h. rotate_head is_neox row rot_dim (base + h * head_size)) [0..<heads] buf"

text \<open>
  Modelled from the spec: one buffer, every token, each with the cache row of its own
  position.
\<close>

definition rotary_transform ::
  "bool \<Rightarrow> (nat \<Rightarrow> int) \<Rightarrow> (int \<Rightarrow> nat \<Rightarrow> real) \<Rightarrow> nat \<Rightarrow> nat \<Rightarrow> nat \<Rightarrow> nat \<Rightarrow> nat \<Rightarrow>
   (nat \<Rightarrow> real) \<Rightarrow> (nat \<Rightarrow> real)" where
  "rotary_transform is_neox positions cache rot_dim head_size heads stride num_tokens buf =
     fold (\<lambda>t. rotate_token is_neox (cache (positions t)) rot_dim head_size heads (t * stride))
       [0..<num_tokens] buf"

text \<open>
  Modelled from the spec: the kernel applies the same transform to the query buffer over
  \<open>num_heads\<close> heads and to the key buffer over \<open>num_kv_heads\<close> heads.
\<close>

definition rotary_embedding_kernel ::
  "bool \<Rightarrow> (nat \<Rightarrow> int) \<Rightarrow> (int \<Rightarrow> nat \<Rightarrow> real) \<Rightarrow> nat \<Rightarrow> nat \<Rightarrow> nat \<Rightarrow> nat \<Rightarrow> nat \<Rightarrow> nat \<Rightarrow> nat \<Rightarrow>
   (nat \<Rightarrow> real) \<times> (nat \<Rightarrow> real) \<Rightarrow> (nat \<Rightarrow> real) \<times> (nat \<Rightarrow> real)" where
  "rotary_embedding_kernel is_neox positions cache rot_dim query_stride key_stride num_heads
     num_kv_heads head_size num_tokens qk =
     (rotary_transform is_neox positions cache rot_dim head_size num_heads query_stride
        num_tokens (fst qk),
      rotary_transform is_neox positions cache rot_dim head_size num_kv_heads key_stride
        num_tokens (snd qk))"

section \<open>Device memory\<close>



section \<open>Example inputs\<close>

text \<open>
  Concrete tensors, helper parameters and buffers at which the theorems below are
  instantiated: three tokens, a query of two heads and a key of one head of size four,
  a cache with \<open>rot_dim = 4\<close>; a platform whose device 0 has two vector cores; and
  variants with a query width that \<open>head_size\<close> does not divide, an odd cache width,
  a one-dimensional query, 32 heads with \<open>rot_dim = 128\<close>, and dimensions beyond 32 bits.
\<close>

definition ex_positions :: tensor where
  "ex_positions = \<lparr> dims = [(3, 1)], dtype = kLong, device = 1, data = 100 \<rparr>"

definition ex_query :: tensor where
  "ex_query = \<lparr> dims = [(3, 8), (8, 1)], dtype = kHalf, device = 1, data = 200 \<rparr>"

definition ex_key :: tensor where
  "ex_key = \<lparr> dims = [(3, 4), (4, 1)], dtype = kHalf, device = 1, data = 300 \<rparr>"

definition ex_cache :: tensor where
  "ex_cache = \<lparr> dims = [(16, 4), (4, 1)], dtype = kHalf, device = 1, data = 400 \<rparr>"

definition ex_get_dtype :: "ScalarType \<Rightarrow> error + nat" where
  "ex_get_dtype ty =
     (if ty = kFloat then Inr 0 else if ty = kHalf then Inr 1
      else if ty = kBFloat16 then Inr 2 else Inl DTypeHelperError)"

definition ex_platform :: "int \<Rightarrow> string \<Rightarrow> nat" where
  "ex_platform d s = (if s = ''aiv'' then (if d = 0 then 2 else 40) else 0)"

definition ex_dispatch :: "ScalarType \<Rightarrow> bool" where
  "ex_dispatch ty \<longleftrightarrow> ty = kFloat \<or> ty = kHalf \<or> ty = kBFloat16"

definition ex_prop :: cudaDeviceProp where
  "ex_prop = \<lparr> maxThreadsPerBlock = 1024, maxGridSize_x = 2147483647 \<rparr>"

definition ex_npu_call :: npu_call where
  "ex_npu_call =
     \<lparr> arg_positions = 100, arg_query = 200, arg_key = 300, arg_cos_sin_cache = 400,
       arg_rot_dim = 4, arg_query_stride = 8, arg_key_stride = 4, arg_num_heads = 2,
       arg_num_kv_heads = 1, arg_head_size = 4, arg_dtype_num = 1, arg_is_neox = True,
       arg_query_dst = 200, arg_key_dst = 300, arg_dst_query_stride = 8,
       arg_dst_key_stride = 4, arg_num_tokens = 3, arg_loop_cnt = 2, arg_aivNum = 2 \<rparr>"

definition ex_launch :: launch where
  "ex_launch =
     \<lparr> arg_positions = 100, arg_query = 200, arg_key = 300, arg_cos_sin_cache = 400,
       arg_rot_dim = 4, arg_query_stride = 8, arg_key_stride = 4, arg_num_heads = 2,
       arg_num_kv_heads = 1, arg_head_size = 4,
       grid_x = 3, block_x = 4, scalar_t = kHalf, IS_NEOX = True \<rparr>"





definition wide_query :: tensor where
  "wide_query =
     \<lparr> dims = [(1, 4294967296), (4294967296, 1)], dtype = kHalf, device = 1, data = 200 \<rparr>"

definition wide_npu_call :: npu_call where
  "wide_npu_call =
     \<lparr> arg_positions = 100, arg_query = 200, arg_key = 300, arg_cos_sin_cache = 400,
       arg_rot_dim = 4, arg_query_stride = 4294967296, arg_key_stride = 4, arg_num_heads = 0,
       arg_num_kv_heads = 4, arg_head_size = 1, arg_dtype_num = 1, arg_is_neox = True,
       arg_query_dst = 200, arg_key_dst = 300, arg_dst_query_stride = 4294967296,
       arg_dst_key_stride = 4, arg_num_tokens = 1, arg_loop_cnt = 1, arg_aivNum = 2 \<rparr>"

definition long_query :: tensor where
  "long_query =
     \<lparr> dims = [(8589934592, 1), (1, 1)], dtype = kHalf, device = 1, data = 200 \<rparr>"

definition one_core :: "int \<Rightarrow> string \<Rightarrow> nat" where
  "one_core d s = 1"

definition long_npu_call :: npu_call where
  "long_npu_call =
     \<lparr> arg_positions = 100, arg_query = 200, arg_key = 300, arg_cos_sin_cache = 400,
       arg_rot_dim = 4, arg_query_stride = 1, arg_key_stride = 4, arg_num_heads = 1,
       arg_num_kv_heads = 4, arg_head_size = 1, arg_dtype_num = 1, arg_is_neox = True,
       arg_query_dst = 200, arg_key_dst = 300, arg_dst_query_stride = 1,
       arg_dst_key_stride = 4, arg_num_tokens = 8589934592, arg_loop_cnt = 0,
       arg_aivNum = 1 \<rparr>"

definition cap_query :: tensor where
  "cap_query = \<lparr> dims = [(3, 4096), (4096, 1)], dtype = kHalf, device = 1, data = 200 \<rparr>"

definition cap_key :: tensor where
  "cap_key = \<lparr> dims = [(3, 1024), (1024, 1)], dtype = kHalf, device = 1, data = 300 \<rparr>"

definition cap_cache :: tensor where
  "cap_cache = \<lparr> dims = [(16, 128), (128, 1)], dtype = kHalf, device = 1, data = 400 \<rparr>"

definition cap_launch :: launch where
  "cap_launch =
     \<lparr> arg_positions = 100, arg_query = 200, arg_key = 300, arg_cos_sin_cache = 400,
       arg_rot_dim = 128, arg_query_stride = 4096, arg_key_stride = 1024, arg_num_heads = 32,
       arg_num_kv_heads = 8, arg_head_size = 128,
       grid_x = 3, block_x = 512, scalar_t = kHalf, IS_NEOX = True \<rparr>"

definition one_position :: tensor where
  "one_position = \<lparr> dims = [(1, 1)], dtype = kLong, device = 1, data = 100 \<rparr>"

definition ovf_query :: tensor where
  "ovf_query =
     \<lparr> dims = [(1, 4294967298), (4294967298, 1)], dtype = kHalf, device = 1, data = 200 \<rparr>"

definition ovf_key :: tensor where
  "ovf_key = \<lparr> dims = [(1, 6), (6, 1)], dtype = kHalf, device = 1, data = 300 \<rparr>"

definition ovf_cache :: tensor where
  "ovf_cache = \<lparr> dims = [(16, 6), (6, 1)], dtype = kHalf, device = 1, data = 400 \<rparr>"

definition ovf_launch :: launch where
  "ovf_launch =
     \<lparr> arg_positions = 100, arg_query = 200, arg_key = 300, arg_cos_sin_cache = 400,
       arg_rot_dim = 6, arg_query_stride = 4294967298, arg_key_stride = 6,
       arg_num_heads = 715827883, arg_num_kv_heads = 1, arg_head_size = 6,
       grid_x = 1, block_x = 1, scalar_t = kHalf, IS_NEOX = True \<rparr>"

definition other_platform :: "int \<Rightarrow> string \<Rightarrow> nat" where
  "other_platform d s = (if s = ''aiv'' then (if d = 0 then 2 else 8) else 3)"

definition ex_pos :: "nat \<Rightarrow> int" where
  "ex_pos t = 7 - int t"

definition ex_table :: "int \<Rightarrow> nat \<Rightarrow> real" where
  "ex_table p j = real_of_int p + real j / 2"

definition ex_qbuf :: "nat \<Rightarrow> real" where
  "ex_qbuf a = real a"

definition ex_kbuf :: "nat \<Rightarrow> real" where
  "ex_kbuf a = 10 - real a"




section \<open>Facts about the entry points\<close>

lemma bind_err_Inr_iff: "bind_err r f = Inr v \<longleftrightarrow> (\<exists>x. r = Inr x \<and> f x = Inr v)"
  by (cases r) (simp_all add: bind_err_def)

lemma bind_err_Inr: "bind_err (Inr x) f = f x"
  by (simp add: bind_err_def)

lemma tensor_size_last:
  "tensor_size t (- 1) = Inr w \<longleftrightarrow> dims t \<noteq> [] \<and> w = int (fst (last (dims t)))"
  by (cases "dims t" rule: rev_cases)
     (auto simp: tensor_size_def maybe_wrap_dim_def bind_err_def nth_append)

lemma tensor_size_1:
  "tensor_size t 1 = Inr w \<longleftrightarrow> 2 \<le> length (dims t) \<and> w = int (fst (dims t ! 1))"
  by (auto simp: tensor_size_def maybe_wrap_dim_def bind_err_def)

lemma tensor_stride_m2:
  "tensor_stride t (- 2) = Inr s \<longleftrightarrow>
     2 \<le> length (dims t) \<and> s = int (snd (dims t ! (length (dims t) - 2)))"
  by (auto simp: tensor_stride_def maybe_wrap_dim_def bind_err_def nat_diff_distrib)

lemma int_div_Inr: "int_div a b = Inr q \<longleftrightarrow> b \<noteq> 0 \<and> q = a sdiv b"
  by (auto simp: int_div_def)

lemma data_ptr_typed_Inr: "data_ptr_typed t ty = Inr p \<longleftrightarrow> dtype t = ty \<and> p = data t"
  by (auto simp: data_ptr_typed_def)

lemma to_uint32_range: "0 \<le> to_uint32 x \<and> to_uint32 x < 2 ^ 32"
  by (simp add: to_uint32_def)

lemma sdiv_nonneg: "0 \<le> a \<Longrightarrow> 0 < b \<Longrightarrow> a sdiv b = a div (b::int)"
  by (simp add: signed_divide_int_def sgn_if)

lemma num_tokens_nonneg:
  "fst (last (dims query)) \<noteq> 0 \<Longrightarrow>
   numel query sdiv int (fst (last (dims query))) = numel query div int (fst (last (dims query))) \<and>
   0 \<le> numel query sdiv int (fst (last (dims query)))"
  by (simp add: sdiv_nonneg numel_def pos_imp_zdiv_nonneg_iff)

lemmas Inr_iffs = bind_err_Inr_iff tensor_size_last tensor_size_1 tensor_stride_m2 int_div_Inr
  data_ptr_typed_Inr

lemma custom_handler_Inr:
  "custom_handler gd pf ty neox nt pp qp kp cp rd qs ks nh nk hs = Inr c \<longleftrightarrow>
     (\<exists>n. gd ty = Inr n \<and> to_uint32 (int (pf 0 ''aiv'')) \<noteq> 0 \<and>
       c = \<lparr> arg_positions = pp, arg_query = qp, arg_key = kp,
         arg_cos_sin_cache = cp, arg_rot_dim = rd,
         arg_query_stride = qs, arg_key_stride = ks,
         arg_num_heads = nh, arg_num_kv_heads = nk,
         arg_head_size = hs,
         arg_dtype_num = n, arg_is_neox = neox,
         arg_query_dst = qp, arg_key_dst = kp,
         arg_dst_query_stride = qs, arg_dst_key_stride = ks,
         arg_num_tokens = nt,
         arg_loop_cnt =
           to_uint32 (int64_add (int64_add nt (to_uint32 (int (pf 0 ''aiv'')))) (- 1) sdiv
                        to_uint32 (int (pf 0 ''aiv''))),
         arg_aivNum = to_uint32 (int (pf 0 ''aiv'')) \<rparr>)"
  by (auto simp: custom_handler_def Let_def Inr_iffs)


lemma npu_Inr_D:
  assumes "vllm_ascend_rotary_embedding gd pf positions query key head_size cache is_neox stream = (Inr (), stream')"
  shows "npu_ok gd pf positions query key head_size cache \<and>
     (\<exists>n. gd (dtype query) = Inr n \<and> stream' = stream @ [
        npu_call_of n (to_uint32 (int (pf 0 ''aiv''))) positions query key head_size cache is_neox])"
  using assms unfolding vllm_ascend_rotary_embedding_def npu_ok_def npu_call_of_def
  by (auto simp: Let_def Inr_iffs custom_handler_Inr data_ptr_def split: sum.splits)

lemma npu_ok_run:
  assumes "npu_ok gd pf positions query key head_size cache" and "gd (dtype query) = Inr n"
  shows "vllm_ascend_rotary_embedding gd pf positions query key head_size cache is_neox stream =
     (Inr (), stream @ [npu_call_of n (to_uint32 (int (pf 0 ''aiv''))) positions query key head_size cache is_neox])"
proof -
  from assms have q: "tensor_size query (- 1) = Inr (int (fst (last (dims query))))"
    and c: "tensor_size cache 1 = Inr (int (fst (dims cache ! 1)))"
    and k: "tensor_size key (- 1) = Inr (int (fst (last (dims key))))"
    and qs: "tensor_stride query (- 2) = Inr (int (snd (dims query ! (length (dims query) - 2))))"
    and ks: "tensor_stride key (- 2) = Inr (int (snd (dims key ! (length (dims key) - 2))))"
    and p: "data_ptr_typed positions kLong = Inr (data positions)"
    by (auto simp: npu_ok_def Inr_iffs)
  from assms have d1: "int_div (numel query) (int (fst (last (dims query)))) = Inr (numel query sdiv int (fst (last (dims query))))"
    and d2: "\<And>a. int_div a head_size = Inr (a sdiv head_size)"
    by (auto simp: npu_ok_def Inr_iffs)
  from assms
  have h: "\<And>pp qp kp cp rd qs ks nh nk.
     custom_handler gd pf (dtype query) is_neox (numel query sdiv int (fst (last (dims query))))
       pp qp kp cp rd qs ks nh nk head_size =
     Inr \<lparr> arg_positions = pp, arg_query = qp, arg_key = kp,
         arg_cos_sin_cache = cp, arg_rot_dim = rd,
         arg_query_stride = qs, arg_key_stride = ks,
         arg_num_heads = nh, arg_num_kv_heads = nk,
         arg_head_size = head_size,
         arg_dtype_num = n, arg_is_neox = is_neox,
         arg_query_dst = qp, arg_key_dst = kp,
         arg_dst_query_stride = qs, arg_dst_key_stride = ks,
         arg_num_tokens = numel query sdiv int (fst (last (dims query))),
         arg_loop_cnt =
           to_uint32 (int64_add (int64_add (numel query sdiv int (fst (last (dims query))))
                                   (to_uint32 (int (pf 0 ''aiv'')))) (- 1) sdiv
                        to_uint32 (int (pf 0 ''aiv''))),
         arg_aivNum = to_uint32 (int (pf 0 ''aiv'')) \<rparr>"
    by (simp add: custom_handler_Inr npu_ok_def)
  show ?thesis
    unfolding vllm_ascend_rotary_embedding_def npu_call_of_def
    by (simp add: q c k qs ks p d1 d2 h bind_err_Inr Let_def data_ptr_def)
qed



lemma gpu_Inr_D:
  assumes "rotary_embedding disp prop positions query key head_size cache is_neox stream = (Inr (), stream')"
  shows "gpu_ok disp positions query key head_size cache \<and>
     stream' = (if launch_valid prop (launch_of positions query key head_size cache is_neox)
                then stream @ [launch_of positions query key head_size cache is_neox] else stream)"
  using assms unfolding rotary_embedding_def gpu_ok_def launch_of_def
  by (auto simp: Let_def Inr_iffs split: sum.splits if_splits)

lemma gpu_ok_run:
  assumes "gpu_ok disp positions query key head_size cache"
  shows "rotary_embedding disp prop positions query key head_size cache is_neox stream =
     (Inr (), if launch_valid prop (launch_of positions query key head_size cache is_neox)
                then stream @ [launch_of positions query key head_size cache is_neox] else stream)"
proof -
  from assms have q: "tensor_size query (- 1) = Inr (int (fst (last (dims query))))"
    and c: "tensor_size cache 1 = Inr (int (fst (dims cache ! 1)))"
    and k: "tensor_size key (- 1) = Inr (int (fst (last (dims key))))"
    and qs: "tensor_stride query (- 2) = Inr (int (snd (dims query ! (length (dims query) - 2))))"
    and ks: "tensor_stride key (- 2) = Inr (int (snd (dims key ! (length (dims key) - 2))))"
    and p: "data_ptr_typed positions kLong = Inr (data positions)"
    and pq: "data_ptr_typed query (dtype query) = Inr (data query)"
    and pk: "data_ptr_typed key (dtype query) = Inr (data key)"
    and pc: "data_ptr_typed cache (dtype query) = Inr (data cache)"
    and dp: "disp (dtype query)"
    by (auto simp: gpu_ok_def Inr_iffs)
  from assms have d1: "int_div (numel query) (int (fst (last (dims query)))) = Inr (numel query sdiv int (fst (last (dims query))))"
    and d2: "\<And>a. int_div a head_size = Inr (a sdiv head_size)"
    by (auto simp: gpu_ok_def Inr_iffs)
  show ?thesis
    unfolding rotary_embedding_def launch_of_def
    by (simp add: q c k qs ks p pq pk pc dp d1 d2 bind_err_Inr Let_def)
qed

lemma gpu_Inl:
  "rotary_embedding disp prop positions query key head_size cache is_neox stream = (Inl e, stream')
   \<Longrightarrow> stream' = stream"
  unfolding rotary_embedding_def
  by (auto split: sum.splits)

lemma to_int32_id: "- (2 ^ 31) \<le> x \<Longrightarrow> x < 2 ^ 31 \<Longrightarrow> to_int32 x = x"
  by (simp add: to_int32_def)

lemma to_uint32_id: "0 \<le> x \<Longrightarrow> x < 2 ^ 32 \<Longrightarrow> to_uint32 x = x"
  by (simp add: to_uint32_def)

lemma to_int64_id: "- (2 ^ 63) \<le> x \<Longrightarrow> x < 2 ^ 63 \<Longrightarrow> to_int64 x = x"
  by (simp add: to_int64_def)

lemma to_int32_range: "- (2 ^ 31) \<le> to_int32 x \<and> to_int32 x < 2 ^ 31"
proof -
  have "0 \<le> (x + 2 ^ 31) mod 2 ^ 32" "(x + 2 ^ 31) mod 2 ^ 32 < (2 ^ 32 :: int)"
    by simp_all
  then show ?thesis unfolding to_int32_def by simp
qed

lemma loop_sum_exact:
  assumes "0 \<le> nt" "0 < a" "nt + a < 2 ^ 63"
  shows "int64_add (int64_add nt a) (- 1) sdiv a = (nt + a - 1) div a"
proof -
  from assms have "int64_add nt a = nt + a"
    by (simp add: int64_add_def to_int64_id)
  with assms have "int64_add (int64_add nt a) (- 1) = nt + a - 1"
    by (simp add: int64_add_def to_int64_id)
  with assms show ?thesis by (simp add: sdiv_nonneg)
qed

lemma ceil_div_mod:
  fixes n a :: int
  assumes "0 < a"
  shows "n + a - 1 = a * (- ((- n) div a)) + (a - 1 - (- n) mod a)"
proof -
  have "a * ((- n) div a) + (- n) mod a = - n" by (rule mult_div_mod_eq)
  then have "n = a * (- ((- n) div a)) - (- n) mod a" by linarith
  then show ?thesis by linarith
qed

lemma ceil_div_neg:
  fixes n a :: int
  assumes "0 < a"
  shows "(n + a - 1) div a = - ((- n) div a)"
proof (rule int_div_pos_eq)
  show "n + a - 1 = a * (- ((- n) div a)) + (a - 1 - (- n) mod a)"
    by (rule ceil_div_mod [OF assms])
  show "0 \<le> a - 1 - (- n) mod a" using assms pos_mod_bound [of a "- n"] by linarith
  show "a - 1 - (- n) mod a < a" using assms pos_mod_sign [of a "- n"] by linarith
qed

lemma ceil_div:
  fixes n a :: int
  assumes "0 < a"
  shows "(n + a - 1) div a = \<lceil>real_of_int n / real_of_int a\<rceil>"
  by (simp add: ceil_div_neg [OF assms] ceiling_divide_eq_div)


lemma sdiv2_neg: "(p::int) < 0 \<Longrightarrow> - (2 ^ 31) \<le> p \<Longrightarrow> p sdiv 2 \<le> 0 \<and> - (2 ^ 30) \<le> p sdiv 2"
  by (simp add: signed_divide_int_def sgn_if)

lemma sdiv2_nonneg: "(0::int) \<le> p \<Longrightarrow> 0 \<le> p sdiv 2"
  by (simp add: sdiv_nonneg)

lemma gpu_launched:
  assumes "rotary_embedding disp dev positions query key head_size cache is_neox stream =
      (r, stream @ [l])"
  shows "r = Inr () \<and> gpu_ok disp positions query key head_size cache \<and>
         l = launch_of positions query key head_size cache is_neox \<and> launch_valid dev l"
proof -
  from assms have r: "r = Inr ()" by (cases r) (auto dest: gpu_Inl)
  with assms gpu_Inr_D [of disp dev positions query key head_size cache is_neox stream "stream @ [l]"]
  show ?thesis by (auto split: if_splits)
qed



lemma npu_loop_cnt:
  assumes "npu_ok gd pf positions query key head_size cache"
  shows "\<exists>c. vllm_ascend_rotary_embedding gd pf positions query key head_size cache is_neox stream =
       (Inr (), stream @ [c]) \<and>
     arg_num_tokens c = numel query sdiv int (fst (last (dims query))) \<and>
     0 \<le> arg_num_tokens c \<and>
     arg_aivNum c = to_uint32 (int (pf 0 ''aiv'')) \<and> 0 < arg_aivNum c \<and>
     arg_loop_cnt c =
       to_uint32 (int64_add (int64_add (arg_num_tokens c) (arg_aivNum c)) (- 1) sdiv arg_aivNum c) \<and>
     arg_num_heads c = to_int32 (int (fst (last (dims query))) sdiv head_size) \<and>
     arg_num_kv_heads c = to_int32 (int (fst (last (dims key))) sdiv head_size)"
proof -
  from assms obtain n where n: "gd (dtype query) = Inr n" unfolding npu_ok_def by blast
  let ?c = "npu_call_of n (to_uint32 (int (pf 0 ''aiv''))) positions query key head_size cache is_neox"
  let ?a = "to_uint32 (int (pf 0 ''aiv''))"
  let ?nt = "numel query sdiv int (fst (last (dims query)))"
  from assms have a: "0 < ?a" using to_uint32_range [of "int (pf 0 ''aiv'')"]
    by (simp add: npu_ok_def)
  from assms have nt: "0 \<le> ?nt" using num_tokens_nonneg [of query] by (simp add: npu_ok_def)
  have f: "arg_num_tokens ?c = ?nt" "arg_aivNum ?c = ?a"
    "arg_loop_cnt ?c =
       to_uint32 (int64_add (int64_add (arg_num_tokens ?c) (arg_aivNum ?c)) (- 1) sdiv arg_aivNum ?c)"
    "arg_num_heads ?c = to_int32 (int (fst (last (dims query))) sdiv head_size)"
    "arg_num_kv_heads ?c = to_int32 (int (fst (last (dims key))) sdiv head_size)"
    by (simp_all add: npu_call_of_def)
  from f(1) nt have nt': "0 \<le> arg_num_tokens ?c" by simp
  from f(2) a have a': "0 < arg_aivNum ?c" by simp
  from npu_ok_run [OF assms n, of is_neox stream] f(1,2) nt' a' f(3,4,5) show ?thesis by blast
qed

lemmas eval_defs =
  npu_call_of_def launch_of_def launch_valid_def numel_def to_int32_def to_uint32_def
  to_int64_def int_mul_def int64_add_def signed_divide_int_def

lemmas ex_defs =
  ex_positions_def ex_query_def ex_key_def ex_cache_def ex_get_dtype_def ex_platform_def
  ex_dispatch_def ex_prop_def

lemma ex_npu_run:
  "vllm_ascend_rotary_embedding ex_get_dtype ex_platform ex_positions ex_query ex_key 4
     ex_cache True [] = (Inr (), [ex_npu_call])"
proof -
  have ok: "npu_ok ex_get_dtype ex_platform ex_positions ex_query ex_key 4 ex_cache"
    by (simp add: npu_ok_def ex_defs to_uint32_def)
  have n: "ex_get_dtype (dtype ex_query) = Inr 1" by (simp add: ex_defs)
  have c: "npu_call_of 1 (to_uint32 (int (ex_platform 0 ''aiv''))) ex_positions ex_query ex_key 4 ex_cache True =
      ex_npu_call"
    by (simp add: eval_defs ex_defs ex_npu_call_def)
  show ?thesis using npu_ok_run [OF ok n, of True "[]"] unfolding c by simp
qed

lemma ex_gpu_run:
  "rotary_embedding ex_dispatch ex_prop ex_positions ex_query ex_key 4 ex_cache True [] =
     (Inr (), [ex_launch])"
proof -
  have ok: "gpu_ok ex_dispatch ex_positions ex_query ex_key 4 ex_cache"
    by (simp add: gpu_ok_def ex_defs)
  have c: "launch_of ex_positions ex_query ex_key 4 ex_cache True = ex_launch"
    by (simp add: eval_defs ex_defs ex_launch_def)
  have v: "launch_valid ex_prop ex_launch"
    by (simp add: launch_valid_def ex_prop_def ex_launch_def)
  show ?thesis using gpu_ok_run [OF ok, of ex_prop True "[]"] unfolding c by (simp add: v)
qed

lemma cap_gpu_run:
  "rotary_embedding ex_dispatch ex_prop ex_positions cap_query cap_key 128 cap_cache True [] =
     (Inr (), [cap_launch])"
proof -
  have ok: "gpu_ok ex_dispatch ex_positions cap_query cap_key 128 cap_cache"
    by (simp add: gpu_ok_def ex_defs cap_query_def cap_key_def cap_cache_def)
  have c: "launch_of ex_positions cap_query cap_key 128 cap_cache True = cap_launch"
    by (simp add: eval_defs ex_defs cap_query_def cap_key_def cap_cache_def cap_launch_def)
  have v: "launch_valid ex_prop cap_launch"
    by (simp add: launch_valid_def ex_prop_def cap_launch_def)
  show ?thesis using gpu_ok_run [OF ok, of ex_prop True "[]"] unfolding c by (simp add: v)
qed

lemma ovf_gpu_run:
  "rotary_embedding ex_dispatch ex_prop one_position ovf_query ovf_key 6 ovf_cache True [] =
     (Inr (), [ovf_launch])"
proof -
  have ok: "gpu_ok ex_dispatch one_position ovf_query ovf_key 6 ovf_cache"
    by (simp add: gpu_ok_def ex_defs one_position_def ovf_query_def ovf_key_def ovf_cache_def)
  have c: "launch_of one_position ovf_query ovf_key 6 ovf_cache True = ovf_launch"
    by (simp add: eval_defs ex_defs one_position_def ovf_query_def ovf_key_def ovf_cache_def
        ovf_launch_def)
  have v: "launch_valid ex_prop ovf_launch"
    by (simp add: launch_valid_def ex_prop_def ovf_launch_def)
  show ?thesis using gpu_ok_run [OF ok, of ex_prop True "[]"] unfolding c by (simp add: v)
qed


lemma wide_npu_run:
  "vllm_ascend_rotary_embedding ex_get_dtype ex_platform ex_positions wide_query ex_key 1
     ex_cache True [] = (Inr (), [wide_npu_call])"
proof -
  have ok: "npu_ok ex_get_dtype ex_platform ex_positions wide_query ex_key 1 ex_cache"
    by (simp add: npu_ok_def ex_defs wide_query_def to_uint32_def)
  have n: "ex_get_dtype (dtype wide_query) = Inr 1" by (simp add: ex_defs wide_query_def)
  have c: "npu_call_of 1 (to_uint32 (int (ex_platform 0 ''aiv''))) ex_positions wide_query ex_key 1 ex_cache True =
      wide_npu_call"
    by (simp add: eval_defs ex_defs wide_query_def wide_npu_call_def)
  show ?thesis using npu_ok_run [OF ok n, of True "[]"] unfolding c by simp
qed

lemma long_npu_run:
  "vllm_ascend_rotary_embedding ex_get_dtype one_core ex_positions long_query ex_key 1
     ex_cache True [] = (Inr (), [long_npu_call])"
proof -
  have ok: "npu_ok ex_get_dtype one_core ex_positions long_query ex_key 1 ex_cache"
    by (simp add: npu_ok_def ex_defs long_query_def one_core_def to_uint32_def)
  have n: "ex_get_dtype (dtype long_query) = Inr 1" by (simp add: ex_defs long_query_def)
  have c: "npu_call_of 1 (to_uint32 (int (one_core 0 ''aiv''))) ex_positions long_query ex_key 1 ex_cache True =
      long_npu_call"
    by (simp add: eval_defs ex_defs long_query_def one_core_def long_npu_call_def)
  show ?thesis using npu_ok_run [OF ok n, of True "[]"] unfolding c by simp
qed


section \<open>Facts about the rotary transform\<close>

lemma fold_frame:
  assumes "\<And>k m. k \<in> set ks \<Longrightarrow> upd k m a = m a"
  shows "fold upd ks m a = m a"
  using assms by (induction ks arbitrary: m) simp_all

lemma fold_local:
  fixes upd :: "'k \<Rightarrow> ('a \<Rightarrow> 'b) \<Rightarrow> 'a \<Rightarrow> 'b" and F :: "'k \<Rightarrow> 'a set"
  assumes frame: "\<And>k m b. k \<in> set ks \<Longrightarrow> b \<notin> F k \<Longrightarrow> upd k m b = m b"
    and loc: "\<And>k m m' b. k \<in> set ks \<Longrightarrow> b \<in> F k \<Longrightarrow> (\<forall>c\<in>F k. m c = m' c) \<Longrightarrow> upd k m b = upd k m' b"
    and disj: "\<And>k k'. k \<in> set ks \<Longrightarrow> k' \<in> set ks \<Longrightarrow> k \<noteq> k' \<Longrightarrow> F k \<inter> F k' = {}"
    and dist: "distinct ks"
    and k: "k \<in> set ks" and a: "a \<in> F k"
  shows "fold upd ks m a = upd k m a"
  using frame loc disj dist k
proof (induction ks arbitrary: m)
  case Nil
  then show ?case by simp
next
  case (Cons j js)
  note fr = Cons.prems(1) and lc = Cons.prems(2) and dj = Cons.prems(3)
  show ?case
  proof (cases "j = k")
    case True
    have "fold upd js (upd k m) a = upd k m a"
    proof (rule fold_frame)
      fix k' and m' :: "'a \<Rightarrow> 'b"
      assume k': "k' \<in> set js"
      with Cons.prems(4) True have "k' \<noteq> k" by auto
      with dj [of k' k] k' True have "F k' \<inter> F k = {}" by simp
      with a have "a \<notin> F k'" by auto
      with fr [of k' a m'] k' show "upd k' m' a = m' a" by simp
    qed
    with True show ?thesis by simp
  next
    case False
    with Cons.prems(5) have kjs: "k \<in> set js" by simp
    have "fold upd js (upd j m) a = upd k (upd j m) a"
      by (rule Cons.IH) (use Cons.prems kjs in \<open>simp_all\<close>)
    also have "upd k (upd j m) a = upd k m a"
    proof (rule lc [OF Cons.prems(5) a])
      show "\<forall>c\<in>F k. upd j m c = m c"
      proof
        fix c assume c: "c \<in> F k"
        from dj [of j k] False Cons.prems(5) have "F j \<inter> F k = {}" by simp
        with c have "c \<notin> F j" by auto
        then show "upd j m c = m c" using fr [of j c m] by simp
      qed
    qed
    finally show ?thesis by simp
  qed
qed


lemma x_index_neq_y_index: "i < e \<Longrightarrow> x_index n e i \<noteq> y_index n e i"
  by (auto simp: x_index_def y_index_def)

lemma x_index_less: "i < e \<Longrightarrow> x_index n e i < 2 * e"
  by (auto simp: x_index_def)

lemma y_index_less: "i < e \<Longrightarrow> y_index n e i < 2 * e"
  by (auto simp: y_index_def)

lemma index_disjoint:
  assumes "i < e" "j < e" "i \<noteq> j"
  shows "x_index n e i \<noteq> x_index n e j" "x_index n e i \<noteq> y_index n e j"
        "y_index n e i \<noteq> x_index n e j" "y_index n e i \<noteq> y_index n e j"
  using assms by (auto simp: x_index_def y_index_def)

lemma rotate_pair_frame:
  "b \<noteq> base + x_index n (rd div 2) i \<Longrightarrow> b \<noteq> base + y_index n (rd div 2) i \<Longrightarrow>
   rotate_pair n row rd base i m b = m b"
  by (simp add: rotate_pair_def Let_def)

lemma rotate_pair_x:
  "i < rd div 2 \<Longrightarrow>
   rotate_pair n row rd base i m (base + x_index n (rd div 2) i) =
     m (base + x_index n (rd div 2) i) * row (x_index n (rd div 2) i)
     - m (base + y_index n (rd div 2) i) * row (y_index n (rd div 2) i)"
  using x_index_neq_y_index [of i "rd div 2" n] by (simp add: rotate_pair_def Let_def)

lemma rotate_pair_y:
  "rotate_pair n row rd base i m (base + y_index n (rd div 2) i) =
     m (base + y_index n (rd div 2) i) * row (x_index n (rd div 2) i)
     + m (base + x_index n (rd div 2) i) * row (y_index n (rd div 2) i)"
  by (simp add: rotate_pair_def Let_def)

lemma rotate_pair_local:
  assumes "m (base + x_index n (rd div 2) i) = m' (base + x_index n (rd div 2) i)"
      and "m (base + y_index n (rd div 2) i) = m' (base + y_index n (rd div 2) i)"
      and "b = base + x_index n (rd div 2) i \<or> b = base + y_index n (rd div 2) i"
  shows "rotate_pair n row rd base i m b = rotate_pair n row rd base i m' b"
  using assms by (auto simp: rotate_pair_def Let_def)

lemma rotate_head_frame:
  assumes "\<And>i. i < rd div 2 \<Longrightarrow> b \<noteq> base + x_index n (rd div 2) i \<and> b \<noteq> base + y_index n (rd div 2) i"
  shows "rotate_head n row rd base m b = m b"
  unfolding rotate_head_def
  by (rule fold_frame) (use assms in \<open>simp add: rotate_pair_frame\<close>)

lemma rotate_head_at:
  assumes i: "i < rd div 2"
    and b: "b = base + x_index n (rd div 2) i \<or> b = base + y_index n (rd div 2) i"
  shows "rotate_head n row rd base m b = rotate_pair n row rd base i m b"
  unfolding rotate_head_def
proof (rule fold_local [where F = "\<lambda>i. {base + x_index n (rd div 2) i, base + y_index n (rd div 2) i}"])
  show "distinct [0..<rd div 2]" by simp
  show "i \<in> set [0..<rd div 2]" using i by simp
  show "b \<in> {base + x_index n (rd div 2) i, base + y_index n (rd div 2) i}" using b by auto
next
  fix k and m :: "nat \<Rightarrow> real" and c
  assume "c \<notin> {base + x_index n (rd div 2) k, base + y_index n (rd div 2) k}"
  then show "rotate_pair n row rd base k m c = m c" by (simp add: rotate_pair_frame)
next
  fix k and m m' :: "nat \<Rightarrow> real" and c
  assume "c \<in> {base + x_index n (rd div 2) k, base + y_index n (rd div 2) k}"
     and "\<forall>d\<in>{base + x_index n (rd div 2) k, base + y_index n (rd div 2) k}. m d = m' d"
  then show "rotate_pair n row rd base k m c = rotate_pair n row rd base k m' c"
    by (intro rotate_pair_local) auto
next
  fix k k' assume "k \<in> set [0..<rd div 2]" "k' \<in> set [0..<rd div 2]" "k \<noteq> k'"
  then show "{base + x_index n (rd div 2) k, base + y_index n (rd div 2) k} \<inter>
             {base + x_index n (rd div 2) k', base + y_index n (rd div 2) k'} = {}"
    using index_disjoint [of k "rd div 2" k' n] by auto
qed

lemma rotate_head_outside:
  assumes "b < base \<or> base + rd \<le> b"
  shows "rotate_head n row rd base m b = m b"
proof (rule rotate_head_frame)
  fix i assume i: "i < rd div 2"
  have "x_index n (rd div 2) i < rd" "y_index n (rd div 2) i < rd"
    using x_index_less [OF i, of n] y_index_less [OF i, of n] by auto
  with assms show "b \<noteq> base + x_index n (rd div 2) i \<and> b \<noteq> base + y_index n (rd div 2) i"
    by auto
qed

lemma rotate_head_local:
  assumes "\<And>c. base \<le> c \<Longrightarrow> c < base + rd \<Longrightarrow> m c = m' c"
    and "base \<le> b" "b < base + rd"
  shows "rotate_head n row rd base m b = rotate_head n row rd base m' b"
proof (cases "\<exists>i < rd div 2. b = base + x_index n (rd div 2) i \<or> b = base + y_index n (rd div 2) i")
  case True
  then obtain i where i: "i < rd div 2"
    and b: "b = base + x_index n (rd div 2) i \<or> b = base + y_index n (rd div 2) i" by blast
  have "x_index n (rd div 2) i < rd" "y_index n (rd div 2) i < rd"
    using x_index_less [OF i, of n] y_index_less [OF i, of n] by auto
  then have "m (base + x_index n (rd div 2) i) = m' (base + x_index n (rd div 2) i)"
       "m (base + y_index n (rd div 2) i) = m' (base + y_index n (rd div 2) i)"
    using assms(1) by simp_all
  then have "rotate_pair n row rd base i m b = rotate_pair n row rd base i m' b"
    using b by (rule rotate_pair_local)
  then show ?thesis
    by (simp only: rotate_head_at [OF i b])
next
  case False
  then have "rotate_head n row rd base m b = m b" "rotate_head n row rd base m' b = m' b"
    by (auto intro!: rotate_head_frame)
  then show ?thesis using assms by simp
qed


lemma block_order: "k < k' \<Longrightarrow> r \<le> w \<Longrightarrow> base + k * w + r \<le> base + k' * (w::nat)"
proof -
  assume "k < k'" "r \<le> w"
  then have "Suc k * w \<le> k' * w" by (intro mult_le_mono1) simp
  with \<open>r \<le> w\<close> show ?thesis by simp
qed

lemma fold_blocks_at:
  fixes U :: "nat \<Rightarrow> (nat \<Rightarrow> 'b) \<Rightarrow> nat \<Rightarrow> 'b"
  assumes frame: "\<And>k m b. k < K \<Longrightarrow> b < base + k * w \<or> base + k * w + r \<le> b \<Longrightarrow> U k m b = m b"
    and loc: "\<And>k m m' b. k < K \<Longrightarrow> base + k * w \<le> b \<Longrightarrow> b < base + k * w + r \<Longrightarrow>
               (\<And>c. base + k * w \<le> c \<Longrightarrow> c < base + k * w + r \<Longrightarrow> m c = m' c) \<Longrightarrow>
               U k m b = U k m' b"
    and rw: "r \<le> w"
    and k: "k < K" and b: "base + k * w \<le> b" "b < base + k * w + r"
  shows "fold U [0..<K] m b = U k m b"
proof (rule fold_local [where F = "\<lambda>k. {base + k * w ..< base + k * w + r}"])
  show "distinct [0..<K]" by simp
  show "k \<in> set [0..<K]" using k by simp
  show "b \<in> {base + k * w ..< base + k * w + r}" using b by simp
next
  fix j and m :: "nat \<Rightarrow> 'b" and c
  assume "j \<in> set [0..<K]" "c \<notin> {base + j * w ..< base + j * w + r}"
  then show "U j m c = m c" by (intro frame) auto
next
  fix j and m m' :: "nat \<Rightarrow> 'b" and c
  assume "j \<in> set [0..<K]" "c \<in> {base + j * w ..< base + j * w + r}"
     "\<forall>d\<in>{base + j * w ..< base + j * w + r}. m d = m' d"
  then show "U j m c = U j m' c" by (intro loc) auto
next
  fix j j' assume "j \<in> set [0..<K]" "j' \<in> set [0..<K]" "j \<noteq> j'"
  then consider "j < j'" | "j' < j" by linarith
  then show "{base + j * w ..< base + j * w + r} \<inter> {base + j' * w ..< base + j' * w + r} = {}"
  proof cases
    case 1
    from block_order [OF 1 rw, of base] show ?thesis by auto
  next
    case 2
    from block_order [OF 2 rw, of base] show ?thesis by auto
  qed
qed

lemma rotate_token_at:
  assumes "rd \<le> hs" "h < H" "base + h * hs \<le> b" "b < base + h * hs + rd"
  shows "rotate_token n row rd hs H base m b = rotate_head n row rd (base + h * hs) m b"
  unfolding rotate_token_def
proof (rule fold_blocks_at [where r = rd and w = hs and base = base])
  show "rd \<le> hs" "h < H" "base + h * hs \<le> b" "b < base + h * hs + rd" by fact+
next
  fix k and m :: "nat \<Rightarrow> real" and c
  assume "c < base + k * hs \<or> base + k * hs + rd \<le> c"
  then show "rotate_head n row rd (base + k * hs) m c = m c" by (rule rotate_head_outside)
next
  fix k and m m' :: "nat \<Rightarrow> real" and c
  assume "base + k * hs \<le> c" "c < base + k * hs + rd"
    "\<And>d. base + k * hs \<le> d \<Longrightarrow> d < base + k * hs + rd \<Longrightarrow> m d = m' d"
  then show "rotate_head n row rd (base + k * hs) m c = rotate_head n row rd (base + k * hs) m' c"
    by (intro rotate_head_local) auto
qed

lemma rotate_token_frame:
  assumes "\<And>h. h < H \<Longrightarrow> b < base + h * hs \<or> base + h * hs + rd \<le> b"
  shows "rotate_token n row rd hs H base m b = m b"
  unfolding rotate_token_def
  by (rule fold_frame) (use assms in \<open>simp add: rotate_head_outside\<close>)

lemma head_block_in_token:
  assumes "rd \<le> hs" "h < H"
  shows "base + h * hs + rd \<le> base + H * (hs::nat)"
proof -
  from \<open>h < H\<close> have "Suc h * hs \<le> H * hs" by (intro mult_le_mono1) simp
  with \<open>rd \<le> hs\<close> show ?thesis by simp
qed

lemma rotate_token_outside:
  assumes "rd \<le> hs" "b < base \<or> base + H * hs \<le> b"
  shows "rotate_token n row rd hs H base m b = m b"
proof (rule rotate_token_frame)
  fix h assume "h < H"
  from head_block_in_token [OF assms(1) this, of base] assms(2)
  show "b < base + h * hs \<or> base + h * hs + rd \<le> b" by auto
qed

lemma rotate_token_local:
  assumes rd: "rd \<le> hs"
    and eq: "\<And>c. base \<le> c \<Longrightarrow> c < base + H * hs \<Longrightarrow> m c = m' c"
    and b: "base \<le> b" "b < base + H * hs"
  shows "rotate_token n row rd hs H base m b = rotate_token n row rd hs H base m' b"
proof (cases "\<exists>h < H. base + h * hs \<le> b \<and> b < base + h * hs + rd")
  case True
  then obtain h where h: "h < H" "base + h * hs \<le> b" "b < base + h * hs + rd" by blast
  have "rotate_head n row rd (base + h * hs) m b = rotate_head n row rd (base + h * hs) m' b"
  proof (rule rotate_head_local)
    fix c assume "base + h * hs \<le> c" "c < base + h * hs + rd"
    with head_block_in_token [OF rd h(1), of base] show "m c = m' c" by (intro eq) auto
  qed (use h in auto)
  then show ?thesis by (simp only: rotate_token_at [OF rd h])
next
  case False
  then have "\<And>h. h < H \<Longrightarrow> b < base + h * hs \<or> base + h * hs + rd \<le> b" by (meson not_le)
  then have "rotate_token n row rd hs H base m b = m b" "rotate_token n row rd hs H base m' b = m' b"
    by (auto intro!: rotate_token_frame)
  then show ?thesis using eq b by simp
qed

lemma rotary_transform_at:
  assumes "rd \<le> hs" "H * hs \<le> stride" "t < T" "t * stride \<le> b" "b < t * stride + H * hs"
  shows "rotary_transform n pos cache rd hs H stride T m b =
         rotate_token n (cache (pos t)) rd hs H (t * stride) m b"
  unfolding rotary_transform_def
proof (rule fold_blocks_at [where r = "H * hs" and w = stride and base = 0, simplified])
  show "H * hs \<le> stride" "t < T" "t * stride \<le> b" "b < t * stride + H * hs" by fact+
next
  fix k and m :: "nat \<Rightarrow> real" and c
  assume "c < k * stride \<or> k * stride + H * hs \<le> c"
  then show "rotate_token n (cache (pos k)) rd hs H (k * stride) m c = m c"
    by (intro rotate_token_outside assms(1))
next
  fix k and m m' :: "nat \<Rightarrow> real" and c
  assume "k * stride \<le> c" "c < k * stride + H * hs"
    "\<And>d. k * stride \<le> d \<Longrightarrow> d < k * stride + H * hs \<Longrightarrow> m d = m' d"
  then show "rotate_token n (cache (pos k)) rd hs H (k * stride) m c =
             rotate_token n (cache (pos k)) rd hs H (k * stride) m' c"
    by (intro rotate_token_local assms(1)) auto
qed


lemma rotary_transform_slot:
  assumes v: "rd \<le> hs" "H * hs \<le> stride" and t: "t < T" and h: "h < H" and i: "i < rd div 2"
  shows "rotary_transform n pos cache rd hs H stride T m (t * stride + h * hs + x_index n (rd div 2) i) =
           m (t * stride + h * hs + x_index n (rd div 2) i) * cache (pos t) (x_index n (rd div 2) i)
           - m (t * stride + h * hs + y_index n (rd div 2) i) * cache (pos t) (y_index n (rd div 2) i)"
    and "rotary_transform n pos cache rd hs H stride T m (t * stride + h * hs + y_index n (rd div 2) i) =
           m (t * stride + h * hs + y_index n (rd div 2) i) * cache (pos t) (x_index n (rd div 2) i)
           + m (t * stride + h * hs + x_index n (rd div 2) i) * cache (pos t) (y_index n (rd div 2) i)"
proof -
  define ax where "ax = t * stride + h * hs + x_index n (rd div 2) i"
  define ay where "ay = t * stride + h * hs + y_index n (rd div 2) i"
  have lt: "x_index n (rd div 2) i < rd" "y_index n (rd div 2) i < rd"
    using x_index_less [OF i, of n] y_index_less [OF i, of n] by auto
  have blk: "t * stride + h * hs + rd \<le> t * stride + H * hs"
    by (rule head_block_in_token [OF v(1) h])
  have "rotary_transform n pos cache rd hs H stride T m ax =
        rotate_token n (cache (pos t)) rd hs H (t * stride) m ax"
    by (rule rotary_transform_at [OF v t]) (use lt blk in \<open>auto simp: ax_def\<close>)
  also have "\<dots> = rotate_head n (cache (pos t)) rd (t * stride + h * hs) m ax"
    by (rule rotate_token_at [OF v(1) h]) (use lt in \<open>auto simp: ax_def\<close>)
  also have "\<dots> = rotate_pair n (cache (pos t)) rd (t * stride + h * hs) i m ax"
    by (rule rotate_head_at [OF i]) (simp add: ax_def)
  finally show "rotary_transform n pos cache rd hs H stride T m (t * stride + h * hs + x_index n (rd div 2) i) =
           m (t * stride + h * hs + x_index n (rd div 2) i) * cache (pos t) (x_index n (rd div 2) i)
           - m (t * stride + h * hs + y_index n (rd div 2) i) * cache (pos t) (y_index n (rd div 2) i)"
    by (simp add: ax_def rotate_pair_x [OF i])
  have "rotary_transform n pos cache rd hs H stride T m ay =
        rotate_token n (cache (pos t)) rd hs H (t * stride) m ay"
    by (rule rotary_transform_at [OF v t]) (use lt blk in \<open>auto simp: ay_def\<close>)
  also have "\<dots> = rotate_head n (cache (pos t)) rd (t * stride + h * hs) m ay"
    by (rule rotate_token_at [OF v(1) h]) (use lt in \<open>auto simp: ay_def\<close>)
  also have "\<dots> = rotate_pair n (cache (pos t)) rd (t * stride + h * hs) i m ay"
    by (rule rotate_head_at [OF i]) (simp add: ay_def)
  finally show "rotary_transform n pos cache rd hs H stride T m (t * stride + h * hs + y_index n (rd div 2) i) =
           m (t * stride + h * hs + y_index n (rd div 2) i) * cache (pos t) (x_index n (rd div 2) i)
           + m (t * stride + h * hs + x_index n (rd div 2) i) * cache (pos t) (y_index n (rd div 2) i)"
    by (simp add: ay_def rotate_pair_y)
qed







section \<open>The claims\<close>

subsection \<open>C1: shape preconditions are not checked\<close>




subsection \<open>C2: the shape descriptor\<close>

text \<open>
  C2 as stated fails. \<open>rot_dim\<close>, \<open>num_heads\<close> and \<open>num_kv_heads\<close> are C++
  \<open>int\<close>s initialised from 64-bit values: a query of width \<open>2^32\<close> with
  \<open>head_size = 1\<close> gives \<open>num_heads = 0\<close>, not \<open>2^32\<close>.
\<close>

theorem narrowed_head_count_counterexample:
  "vllm_ascend_rotary_embedding ex_get_dtype ex_platform ex_positions wide_query ex_key 1
     ex_cache True [] = (Inr (), [wide_npu_call]) \<and>
   arg_num_heads wide_npu_call = 0 \<and>
   int (fst (last (dims wide_query))) sdiv 1 = 4294967296"
  using wide_npu_run
  by (simp add: wide_npu_call_def wide_query_def signed_divide_int_def)

text \<open>
  C2, amended. For every call that reaches its kernel, \<open>num_tokens\<close> is the number of
  query elements divided by the query's last-dimension width (the GPU backend uses it, modulo
  \<open>2^32\<close>, as its grid size), and \<open>rot_dim\<close>, \<open>num_heads\<close> and \<open>num_kv_heads\<close>
  are the cache's second dimension, the query width divided by \<open>head_size\<close> and the key
  width divided by \<open>head_size\<close>, each converted to a 32-bit \<open>int\<close>; the conversion
  changes nothing for a value in \<open>[-2^31, 2^31)\<close>.
\<close>

theorem shape_descriptor:
  "(vllm_ascend_rotary_embedding gd pf positions query key head_size cache is_neox stream =
      (Inr (), stream') \<longrightarrow>
    (\<exists>c. stream' = stream @ [c] \<and>
       arg_num_tokens c = numel query sdiv int (fst (last (dims query))) \<and>
       arg_rot_dim c = to_int32 (int (fst (dims cache ! 1))) \<and>
       arg_num_heads c = to_int32 (int (fst (last (dims query))) sdiv head_size) \<and>
       arg_num_kv_heads c = to_int32 (int (fst (last (dims key))) sdiv head_size))) \<and>
   (rotary_embedding disp dev positions query key head_size cache is_neox stream2 =
      (r, stream2 @ [l]) \<longrightarrow>
    grid_x l = to_uint32 (numel query sdiv int (fst (last (dims query)))) \<and>
    arg_rot_dim l = to_int32 (int (fst (dims cache ! 1))) \<and>
    arg_num_heads l = to_int32 (int (fst (last (dims query))) sdiv head_size) \<and>
    arg_num_kv_heads l = to_int32 (int (fst (last (dims key))) sdiv head_size)) \<and>
   (- (2 ^ 31) \<le> x \<and> x < 2 ^ 31 \<longrightarrow> to_int32 x = x)"
proof (intro conjI impI)
  assume "vllm_ascend_rotary_embedding gd pf positions query key head_size cache is_neox stream =
      (Inr (), stream')"
  from npu_Inr_D [OF this]
  show "\<exists>c. stream' = stream @ [c] \<and>
       arg_num_tokens c = numel query sdiv int (fst (last (dims query))) \<and>
       arg_rot_dim c = to_int32 (int (fst (dims cache ! 1))) \<and>
       arg_num_heads c = to_int32 (int (fst (last (dims query))) sdiv head_size) \<and>
       arg_num_kv_heads c = to_int32 (int (fst (last (dims key))) sdiv head_size)"
    by (auto simp: npu_call_of_def)
next
  assume a: "rotary_embedding disp dev positions query key head_size cache is_neox stream2 =
      (r, stream2 @ [l])"
  from gpu_launched [OF a] have l: "l = launch_of positions query key head_size cache is_neox"
    by blast
  show "grid_x l = to_uint32 (numel query sdiv int (fst (last (dims query))))"
    "arg_rot_dim l = to_int32 (int (fst (dims cache ! 1)))"
    "arg_num_heads l = to_int32 (int (fst (last (dims query))) sdiv head_size)"
    "arg_num_kv_heads l = to_int32 (int (fst (last (dims key))) sdiv head_size)"
    by (simp_all add: l launch_of_def)
next
  assume "- (2 ^ 31) \<le> x \<and> x < 2 ^ 31"
  then show "to_int32 x = x" by (simp add: to_int32_id)
qed

theorem shape_descriptor_witness:
  "vllm_ascend_rotary_embedding ex_get_dtype ex_platform ex_positions ex_query ex_key 4
     ex_cache True [] = (Inr (), [ex_npu_call]) \<and>
   (\<exists>c. [ex_npu_call] = [] @ [c] \<and>
       arg_num_tokens c = numel ex_query sdiv int (fst (last (dims ex_query))) \<and>
       arg_rot_dim c = to_int32 (int (fst (dims ex_cache ! 1))) \<and>
       arg_num_heads c = to_int32 (int (fst (last (dims ex_query))) sdiv 4) \<and>
       arg_num_kv_heads c = to_int32 (int (fst (last (dims ex_key))) sdiv 4)) \<and>
   rotary_embedding ex_dispatch ex_prop ex_positions ex_query ex_key 4 ex_cache True [] =
     (Inr (), [] @ [ex_launch]) \<and>
   grid_x ex_launch = to_uint32 (numel ex_query sdiv int (fst (last (dims ex_query)))) \<and>
   arg_num_heads ex_launch = to_int32 (int (fst (last (dims ex_query))) sdiv 4) \<and>
   - (2 ^ 31) \<le> (2::int) \<and> (2::int) < 2 ^ 31 \<and> to_int32 2 = 2"
  using shape_descriptor [of ex_get_dtype ex_platform ex_positions ex_query ex_key 4
      ex_cache True "[]" "[ex_npu_call]" ex_dispatch ex_prop "[]" "Inr ()" ex_launch 2]
    ex_npu_run ex_gpu_run
  by simp

subsection \<open>C3: the neox rotation\<close>

text \<open>
  C3. In neox style, whenever \<open>rot_dim \<le> head_size\<close> and the rows of heads fit in the
  strides, for every token \<open>t\<close>, head \<open>h\<close> and pair index \<open>i < rot_dim / 2\<close> the
  transform leaves at offsets \<open>i\<close> and \<open>i + rot_dim / 2\<close> of the head's slice the
  values \<open>x1 * cos - x2 * sin\<close> and \<open>x2 * cos + x1 * sin\<close>, where \<open>x1\<close>, \<open>x2\<close>
  are the input values at these offsets, \<open>cos = cache[position[t]][i]\<close> and
  \<open>sin = cache[position[t]][i + rot_dim / 2]\<close>; the query buffer over \<open>num_heads\<close>
  heads and the key buffer over \<open>num_kv_heads\<close> heads, with the same cache row.
\<close>

theorem neox_rotation:
  assumes "rot_dim \<le> head_size"
    and "num_heads * head_size \<le> query_stride"
    and "num_kv_heads * head_size \<le> key_stride"
    and "t < num_tokens" and "i < rot_dim div 2"
  shows
   "(h < num_heads \<longrightarrow>
      fst (rotary_embedding_kernel True positions cache rot_dim query_stride key_stride
             num_heads num_kv_heads head_size num_tokens (q, k))
          (t * query_stride + h * head_size + i) =
        q (t * query_stride + h * head_size + i) * cache (positions t) i
        - q (t * query_stride + h * head_size + (i + rot_dim div 2))
            * cache (positions t) (i + rot_dim div 2) \<and>
      fst (rotary_embedding_kernel True positions cache rot_dim query_stride key_stride
             num_heads num_kv_heads head_size num_tokens (q, k))
          (t * query_stride + h * head_size + (i + rot_dim div 2)) =
        q (t * query_stride + h * head_size + (i + rot_dim div 2)) * cache (positions t) i
        + q (t * query_stride + h * head_size + i) * cache (positions t) (i + rot_dim div 2)) \<and>
    (h < num_kv_heads \<longrightarrow>
      snd (rotary_embedding_kernel True positions cache rot_dim query_stride key_stride
             num_heads num_kv_heads head_size num_tokens (q, k))
          (t * key_stride + h * head_size + i) =
        k (t * key_stride + h * head_size + i) * cache (positions t) i
        - k (t * key_stride + h * head_size + (i + rot_dim div 2))
            * cache (positions t) (i + rot_dim div 2) \<and>
      snd (rotary_embedding_kernel True positions cache rot_dim query_stride key_stride
             num_heads num_kv_heads head_size num_tokens (q, k))
          (t * key_stride + h * head_size + (i + rot_dim div 2)) =
        k (t * key_stride + h * head_size + (i + rot_dim div 2)) * cache (positions t) i
        + k (t * key_stride + h * head_size + i) * cache (positions t) (i + rot_dim div 2))"
proof (intro conjI impI)
  assume h: "h < num_heads"
  note s = rotary_transform_slot [OF assms(1,2,4) h assms(5), of True positions cache q,
      unfolded x_index_def y_index_def if_True]
  from s(1) show "fst (rotary_embedding_kernel True positions cache rot_dim query_stride key_stride
             num_heads num_kv_heads head_size num_tokens (q, k))
          (t * query_stride + h * head_size + i) =
        q (t * query_stride + h * head_size + i) * cache (positions t) i
        - q (t * query_stride + h * head_size + (i + rot_dim div 2))
            * cache (positions t) (i + rot_dim div 2)"
    by (simp add: rotary_embedding_kernel_def)
  from s(2) show "fst (rotary_embedding_kernel True positions cache rot_dim query_stride key_stride
             num_heads num_kv_heads head_size num_tokens (q, k))
          (t * query_stride + h * head_size + (i + rot_dim div 2)) =
        q (t * query_stride + h * head_size + (i + rot_dim div 2)) * cache (positions t) i
        + q (t * query_stride + h * head_size + i) * cache (positions t) (i + rot_dim div 2)"
    by (simp add: rotary_embedding_kernel_def)
next
  assume h: "h < num_kv_heads"
  note s = rotary_transform_slot [OF assms(1,3,4) h assms(5), of True positions cache k,
      unfolded x_index_def y_index_def if_True]
  from s(1) show "snd (rotary_embedding_kernel True positions cache rot_dim query_stride key_stride
             num_heads num_kv_heads head_size num_tokens (q, k))
          (t * key_stride + h * head_size + i) =
        k (t * key_stride + h * head_size + i) * cache (positions t) i
        - k (t * key_stride + h * head_size + (i + rot_dim div 2))
            * cache (positions t) (i + rot_dim div 2)"
    by (simp add: rotary_embedding_kernel_def)
  from s(2) show "snd (rotary_embedding_kernel True positions cache rot_dim query_stride key_stride
             num_heads num_kv_heads head_size num_tokens (q, k))
          (t * key_stride + h * head_size + (i + rot_dim div 2)) =
        k (t * key_stride + h * head_size + (i + rot_dim div 2)) * cache (positions t) i
        + k (t * key_stride + h * head_size + i) * cache (positions t) (i + rot_dim div 2)"
    by (simp add: rotary_embedding_kernel_def)
qed

theorem neox_rotation_witness:
  "(4::nat) \<le> 4 \<and> (2::nat) * 4 \<le> 8 \<and> (1::nat) * 4 \<le> 4 \<and> (1::nat) < 2 \<and> (1::nat) < 4 div 2 \<and>
   (1::nat) < 2 \<and> (0::nat) < 1 \<and>
   fst (rotary_embedding_kernel True ex_pos ex_table 4 8 4 2 1 4 2 (ex_qbuf, ex_kbuf))
     (1 * 8 + 1 * 4 + 1) =
     ex_qbuf (1 * 8 + 1 * 4 + 1) * ex_table (ex_pos 1) 1
     - ex_qbuf (1 * 8 + 1 * 4 + (1 + 4 div 2)) * ex_table (ex_pos 1) (1 + 4 div 2) \<and>
   snd (rotary_embedding_kernel True ex_pos ex_table 4 8 4 2 1 4 2 (ex_qbuf, ex_kbuf))
     (1 * 4 + 0 * 4 + (1 + 4 div 2)) =
     ex_kbuf (1 * 4 + 0 * 4 + (1 + 4 div 2)) * ex_table (ex_pos 1) 1
     + ex_kbuf (1 * 4 + 0 * 4 + 1) * ex_table (ex_pos 1) (1 + 4 div 2)"
proof -
  have a: "(4::nat) \<le> 4" "(2::nat) * 4 \<le> 8" "(1::nat) * 4 \<le> 4" "(1::nat) < 2"
    "(1::nat) < 4 div 2" "(0::nat) < 1" by simp_all
  note w1 = neox_rotation [OF a(1,2,3,4,5), of 1 ex_pos ex_table ex_qbuf ex_kbuf]
  note w0 = neox_rotation [OF a(1,2,3,4,5), of 0 ex_pos ex_table ex_qbuf ex_kbuf]
  from w1 a(4) have 1: "fst (rotary_embedding_kernel True ex_pos ex_table 4 8 4 2 1 4 2 (ex_qbuf, ex_kbuf))
     (1 * 8 + 1 * 4 + 1) =
     ex_qbuf (1 * 8 + 1 * 4 + 1) * ex_table (ex_pos 1) 1
     - ex_qbuf (1 * 8 + 1 * 4 + (1 + 4 div 2)) * ex_table (ex_pos 1) (1 + 4 div 2)"
    by blast
  from w0 a(6) have 2: "snd (rotary_embedding_kernel True ex_pos ex_table 4 8 4 2 1 4 2 (ex_qbuf, ex_kbuf))
     (1 * 4 + 0 * 4 + (1 + 4 div 2)) =
     ex_kbuf (1 * 4 + 0 * 4 + (1 + 4 div 2)) * ex_table (ex_pos 1) 1
     + ex_kbuf (1 * 4 + 0 * 4 + 1) * ex_table (ex_pos 1) (1 + 4 div 2)"
    by blast
  from a 1 2 show ?thesis by blast
qed

subsection \<open>C4: no partial completion\<close>




subsection \<open>C5: the style flag\<close>

text \<open>
  C5. The style of the kernel that runs is the \<open>is_neox\<close> argument and nothing else.
  For arguments that pass the checks of the NPU entry point there is one kernel
  invocation such that, for either value \<open>b\<close> of the flag, the call submits exactly that
  invocation with its style flag set to \<open>b\<close>. For arguments that pass the checks of the
  GPU entry point there is one launch such that, for either value \<open>b\<close> of the flag, the
  call launches exactly that launch with the template argument \<open>IS_NEOX = b\<close> (or
  launches nothing, for both values alike, when the runtime refuses the launch
  configuration).
\<close>

theorem variant_selected_by_flag:
  "(npu_ok gd pf positions query key head_size cache \<longrightarrow>
    (\<exists>c. \<forall>b. vllm_ascend_rotary_embedding gd pf positions query key head_size cache b stream =
              (Inr (), stream @ [c\<lparr>arg_is_neox := b\<rparr>]))) \<and>
   (gpu_ok disp positions query key head_size cache \<longrightarrow>
    (\<exists>l. \<forall>b. rotary_embedding disp dev positions query key head_size cache b stream2 =
              (Inr (), if launch_valid dev l then stream2 @ [l\<lparr>IS_NEOX := b\<rparr>] else stream2)))"
proof (intro conjI impI)
  assume ok: "npu_ok gd pf positions query key head_size cache"
  then obtain n where n: "gd (dtype query) = Inr n" unfolding npu_ok_def by blast
  let ?c = "npu_call_of n (to_uint32 (int (pf 0 ''aiv''))) positions query key head_size cache"
  have f: "?c b = (?c True)\<lparr>arg_is_neox := b\<rparr>" for b
    by (simp add: npu_call_of_def)
  have "vllm_ascend_rotary_embedding gd pf positions query key head_size cache b stream =
          (Inr (), stream @ [(?c True)\<lparr>arg_is_neox := b\<rparr>])" for b
    using npu_ok_run [OF ok n, of b stream] f [of b] by simp
  then show "\<exists>c. \<forall>b. vllm_ascend_rotary_embedding gd pf positions query key head_size cache b stream =
              (Inr (), stream @ [c\<lparr>arg_is_neox := b\<rparr>])"
    by blast
next
  assume ok: "gpu_ok disp positions query key head_size cache"
  let ?l = "launch_of positions query key head_size cache"
  have f: "?l b = (?l True)\<lparr>IS_NEOX := b\<rparr>" for b
    by (simp add: launch_of_def)
  have v: "launch_valid dev (?l b) = launch_valid dev (?l True)" for b
    by (simp add: launch_valid_def launch_of_def)
  have "rotary_embedding disp dev positions query key head_size cache b stream2 =
          (Inr (), if launch_valid dev (?l True) then stream2 @ [(?l True)\<lparr>IS_NEOX := b\<rparr>]
                   else stream2)" for b
    using gpu_ok_run [OF ok, of dev b stream2] f [of b] v [of b] by simp
  then show "\<exists>l. \<forall>b. rotary_embedding disp dev positions query key head_size cache b stream2 =
              (Inr (), if launch_valid dev l then stream2 @ [l\<lparr>IS_NEOX := b\<rparr>] else stream2)"
    by blast
qed

theorem variant_selected_by_flag_witness:
  "npu_ok ex_get_dtype ex_platform ex_positions ex_query ex_key 4 ex_cache \<and>
   vllm_ascend_rotary_embedding ex_get_dtype ex_platform ex_positions ex_query ex_key 4
     ex_cache True [] = (Inr (), [ex_npu_call]) \<and>
   arg_is_neox ex_npu_call = True \<and>
   vllm_ascend_rotary_embedding ex_get_dtype ex_platform ex_positions ex_query ex_key 4
     ex_cache False [] = (Inr (), [ex_npu_call\<lparr>arg_is_neox := False\<rparr>]) \<and>
   arg_is_neox (ex_npu_call\<lparr>arg_is_neox := False\<rparr>) = False \<and>
   gpu_ok ex_dispatch ex_positions ex_query ex_key 4 ex_cache \<and>
   rotary_embedding ex_dispatch ex_prop ex_positions ex_query ex_key 4 ex_cache True [] =
     (Inr (), [ex_launch]) \<and>
   IS_NEOX ex_launch = True \<and>
   rotary_embedding ex_dispatch ex_prop ex_positions ex_query ex_key 4 ex_cache False [] =
     (Inr (), [ex_launch\<lparr>IS_NEOX := False\<rparr>]) \<and>
   IS_NEOX (ex_launch\<lparr>IS_NEOX := False\<rparr>) = False"
proof -
  have nok: "npu_ok ex_get_dtype ex_platform ex_positions ex_query ex_key 4 ex_cache"
    by (simp add: npu_ok_def ex_defs to_uint32_def)
  have gok: "gpu_ok ex_dispatch ex_positions ex_query ex_key 4 ex_cache"
    by (simp add: gpu_ok_def ex_defs)
  note t = variant_selected_by_flag [of ex_get_dtype ex_platform ex_positions ex_query ex_key 4
      ex_cache "[]" ex_dispatch ex_prop "[]"]
  from t nok obtain c where c: "\<And>b. vllm_ascend_rotary_embedding ex_get_dtype ex_platform
      ex_positions ex_query ex_key 4 ex_cache b [] = (Inr (), [] @ [c\<lparr>arg_is_neox := b\<rparr>])"
    by blast
  from c [of True] ex_npu_run have ct: "c\<lparr>arg_is_neox := True\<rparr> = ex_npu_call" by simp
  have "c\<lparr>arg_is_neox := False\<rparr> = (c\<lparr>arg_is_neox := True\<rparr>)\<lparr>arg_is_neox := False\<rparr>" by simp
  with ct have cf: "c\<lparr>arg_is_neox := False\<rparr> = ex_npu_call\<lparr>arg_is_neox := False\<rparr>"
    by (simp only:)
  from c [of False] cf
  have 1: "vllm_ascend_rotary_embedding ex_get_dtype ex_platform ex_positions ex_query ex_key 4
     ex_cache False [] = (Inr (), [ex_npu_call\<lparr>arg_is_neox := False\<rparr>])" by simp
  from t gok obtain l where l: "\<And>b. rotary_embedding ex_dispatch ex_prop ex_positions ex_query
      ex_key 4 ex_cache b [] =
        (Inr (), if launch_valid ex_prop l then [] @ [l\<lparr>IS_NEOX := b\<rparr>] else [])"
    by blast
  from l [of True] ex_gpu_run have v: "launch_valid ex_prop l"
    and lt: "l\<lparr>IS_NEOX := True\<rparr> = ex_launch" by (simp_all split: if_splits)
  have "l\<lparr>IS_NEOX := False\<rparr> = (l\<lparr>IS_NEOX := True\<rparr>)\<lparr>IS_NEOX := False\<rparr>" by simp
  with lt have lf: "l\<lparr>IS_NEOX := False\<rparr> = ex_launch\<lparr>IS_NEOX := False\<rparr>" by (simp only:)
  from l [of False] v lf
  have 2: "rotary_embedding ex_dispatch ex_prop ex_positions ex_query ex_key 4 ex_cache False [] =
     (Inr (), [ex_launch\<lparr>IS_NEOX := False\<rparr>])" by simp
  have 3: "arg_is_neox ex_npu_call = True" "IS_NEOX ex_launch = True"
    by (simp_all add: ex_npu_call_def ex_launch_def)
  have 4: "arg_is_neox (ex_npu_call\<lparr>arg_is_neox := False\<rparr>) = False"
    "IS_NEOX (ex_launch\<lparr>IS_NEOX := False\<rparr>) = False" by simp_all
  from nok ex_npu_run 3 1 4 gok ex_gpu_run 2 show ?thesis by blast
qed

subsection \<open>C6: the work partition\<close>




subsection \<open>C7: pass-through outside the rotated prefix\<close>



subsection \<open>C9: threads per block\<close>

text \<open>
  C9 as stated fails: \<open>num_heads * rot_dim\<close> is an \<open>int\<close> product and wraps. With
  \<open>num_heads = 715827883\<close> and \<open>rot_dim = 6\<close> (a query of width \<open>2^32 + 2\<close> and
  \<open>head_size = 6\<close>) the product \<open>2^32 + 2\<close> wraps to 2 and the block that is launched
  has one thread, where \<open>min (num_heads * rot_dim / 2, 512)\<close> is 512.
\<close>

theorem launched_block_counterexample:
  "rotary_embedding ex_dispatch ex_prop one_position ovf_query ovf_key 6 ovf_cache True [] =
     (Inr (), [ovf_launch]) \<and>
   block_x ovf_launch = 1 \<and>
   min (arg_num_heads ovf_launch * arg_rot_dim ovf_launch sdiv 2) 512 = 512"
  using ovf_gpu_run by (simp add: ovf_launch_def signed_divide_int_def)

text \<open>
  C9, amended. On a device whose limit on threads per block is below \<open>2^31\<close>, every
  block the GPU backend launches has \<open>min (P / 2, 512)\<close> threads, where \<open>P\<close> is
  \<open>num_heads * rot_dim\<close> reduced to a 32-bit \<open>int\<close>; hence at most 512 threads, and
  \<open>min (num_heads * rot_dim / 2, 512)\<close> threads whenever the product lies in
  \<open>[-2^31, 2^31)\<close>.
\<close>

theorem block_threads:
  assumes "rotary_embedding disp dev positions query key head_size cache is_neox stream =
             (r, stream @ [l])"
    and "maxThreadsPerBlock dev < 2 ^ 31"
  shows "block_x l = min (to_int32 (arg_num_heads l * arg_rot_dim l) sdiv 2) 512 \<and>
         block_x l \<le> 512 \<and>
         (- (2 ^ 31) \<le> arg_num_heads l * arg_rot_dim l \<and> arg_num_heads l * arg_rot_dim l < 2 ^ 31
            \<longrightarrow> block_x l = min (arg_num_heads l * arg_rot_dim l sdiv 2) 512)"
proof -
  let ?p = "to_int32 (arg_num_heads l * arg_rot_dim l)"
  from gpu_launched [OF assms(1)]
  have l: "l = launch_of positions query key head_size cache is_neox"
    and v: "launch_valid dev l" by blast+
  from to_int32_range [of "arg_num_heads l * arg_rot_dim l"]
  have rng: "- (2 ^ 31) \<le> ?p" "?p < 2 ^ 31" by simp_all
  from l have b: "block_x l = to_uint32 (min (?p sdiv 2) 512)"
    by (simp add: launch_of_def int_mul_def)
  from v assms(2) have small: "block_x l < 2 ^ 31" by (simp add: launch_valid_def)
  have nonneg: "0 \<le> ?p sdiv 2"
  proof (rule ccontr)
    assume "\<not> 0 \<le> ?p sdiv 2"
    then have neg: "?p sdiv 2 < 0" by simp
    then have "?p < 0" using sdiv2_nonneg [of ?p] by (cases "0 \<le> ?p") auto
    from sdiv2_neg [OF this rng(1)] have lo: "- (2 ^ 30) \<le> ?p sdiv 2" by simp
    with neg have "to_uint32 (min (?p sdiv 2) 512) = ?p sdiv 2 + 2 ^ 32"
      unfolding to_uint32_def
      by (intro int_mod_pos_eq [where q = "- 1"]) simp_all
    with b small lo show False by simp
  qed
  then have "to_uint32 (min (?p sdiv 2) 512) = min (?p sdiv 2) 512"
    by (intro to_uint32_id) simp_all
  with b have 1: "block_x l = min (?p sdiv 2) 512" by simp
  then have 2: "block_x l \<le> 512" by simp
  have 3: "block_x l = min (arg_num_heads l * arg_rot_dim l sdiv 2) 512"
    if "- (2 ^ 31) \<le> arg_num_heads l * arg_rot_dim l \<and> arg_num_heads l * arg_rot_dim l < 2 ^ 31"
    using 1 that by (simp add: to_int32_id)
  from 1 2 3 show ?thesis by blast
qed

theorem block_threads_witness:
  "rotary_embedding ex_dispatch ex_prop ex_positions ex_query ex_key 4 ex_cache True [] =
     (Inr (), [] @ [ex_launch]) \<and>
   rotary_embedding ex_dispatch ex_prop ex_positions cap_query cap_key 128 cap_cache True [] =
     (Inr (), [] @ [cap_launch]) \<and>
   maxThreadsPerBlock ex_prop < 2 ^ 31 \<and>
   arg_num_heads ex_launch * arg_rot_dim ex_launch sdiv 2 = 4 \<and>
   block_x ex_launch = min (arg_num_heads ex_launch * arg_rot_dim ex_launch sdiv 2) 512 \<and>
   block_x ex_launch = 4 \<and>
   arg_num_heads cap_launch * arg_rot_dim cap_launch sdiv 2 = 2048 \<and>
   block_x cap_launch = min (arg_num_heads cap_launch * arg_rot_dim cap_launch sdiv 2) 512 \<and>
   block_x cap_launch = 512"
proof -
  have a: "rotary_embedding ex_dispatch ex_prop ex_positions ex_query ex_key 4 ex_cache True [] =
     (Inr (), [] @ [ex_launch])" using ex_gpu_run by simp
  have c: "rotary_embedding ex_dispatch ex_prop ex_positions cap_query cap_key 128 cap_cache True [] =
     (Inr (), [] @ [cap_launch])" using cap_gpu_run by simp
  have b: "maxThreadsPerBlock ex_prop < 2 ^ 31" by (simp add: ex_prop_def)
  have pa: "- (2 ^ 31) \<le> arg_num_heads ex_launch * arg_rot_dim ex_launch \<and>
      arg_num_heads ex_launch * arg_rot_dim ex_launch < 2 ^ 31"
    by (simp add: ex_launch_def)
  have pc: "- (2 ^ 31) \<le> arg_num_heads cap_launch * arg_rot_dim cap_launch \<and>
      arg_num_heads cap_launch * arg_rot_dim cap_launch < 2 ^ 31"
    by (simp add: cap_launch_def)
  have va: "arg_num_heads ex_launch * arg_rot_dim ex_launch sdiv 2 = 4"
    by (simp add: ex_launch_def signed_divide_int_def)
  have vc: "arg_num_heads cap_launch * arg_rot_dim cap_launch sdiv 2 = 2048"
    by (simp add: cap_launch_def signed_divide_int_def)
  from block_threads [OF a b] pa
  have 1: "block_x ex_launch = min (arg_num_heads ex_launch * arg_rot_dim ex_launch sdiv 2) 512"
    by blast
  from block_threads [OF c b] pc
  have 2: "block_x cap_launch = min (arg_num_heads cap_launch * arg_rot_dim cap_launch sdiv 2) 512"
    by blast
  from 1 va have 3: "block_x ex_launch = 4" by simp
  from 2 vc have 4: "block_x cap_launch = 512" by simp
  from a c b va 1 3 vc 2 4 show ?thesis by blast
qed

subsection \<open>C10: the loop count and device 0\<close>

text \<open>
  C10 as stated fails: the loop count is a 32-bit unsigned value. With \<open>2^33\<close> tokens
  and one core, the ceiling of the quotient is \<open>2^33\<close> and the loop count is 0.
\<close>

theorem truncated_loop_count_counterexample:
  "vllm_ascend_rotary_embedding ex_get_dtype one_core ex_positions long_query ex_key 1
     ex_cache True [] = (Inr (), [long_npu_call]) \<and>
   arg_loop_cnt long_npu_call = 0 \<and>
   \<lceil>real_of_int (arg_num_tokens long_npu_call) / real_of_int (arg_aivNum long_npu_call)\<rceil> =
     8589934592"
  using long_npu_run by (simp add: long_npu_call_def)

text \<open>
  C10, amended. Every call of the NPU entry point that passes its checks takes the core
  count \<open>aivNum\<close> from the platform information of device 0 and hands its kernel the
  loop count \<open>(num_tokens + aivNum - 1) / aivNum\<close>, computed in wrapping 64-bit
  arithmetic and converted to \<open>uint32_t\<close>. When \<open>num_tokens + aivNum < 2^63\<close> this
  is the ceiling of \<open>num_tokens / aivNum\<close> modulo \<open>2^32\<close>, hence the ceiling itself
  when that is below \<open>2^32\<close>. The devices of the tensors and the core counts of the
  other devices have no influence on the outcome.
\<close>

theorem loop_count_device_zero:
  "(npu_ok gd pf positions query key head_size cache \<longrightarrow>
    (\<exists>c. vllm_ascend_rotary_embedding gd pf positions query key head_size cache is_neox stream =
           (Inr (), stream @ [c]) \<and>
       arg_num_tokens c = numel query sdiv int (fst (last (dims query))) \<and>
       arg_aivNum c = to_uint32 (int (pf 0 ''aiv'')) \<and>
       arg_loop_cnt c =
         to_uint32 (to_int64 (to_int64 (arg_num_tokens c + arg_aivNum c) - 1) sdiv arg_aivNum c) \<and>
       (arg_num_tokens c + arg_aivNum c < 2 ^ 63 \<longrightarrow>
          arg_loop_cnt c =
            to_uint32 \<lceil>real_of_int (arg_num_tokens c) / real_of_int (arg_aivNum c)\<rceil>) \<and>
       (arg_num_tokens c + arg_aivNum c < 2 ^ 63 \<and>
        \<lceil>real_of_int (arg_num_tokens c) / real_of_int (arg_aivNum c)\<rceil> < 2 ^ 32 \<longrightarrow>
          arg_loop_cnt c = \<lceil>real_of_int (arg_num_tokens c) / real_of_int (arg_aivNum c)\<rceil>))) \<and>
   (pf' 0 ''aiv'' = pf 0 ''aiv'' \<longrightarrow>
    vllm_ascend_rotary_embedding gd pf' (positions\<lparr>device := d1\<rparr>) (query\<lparr>device := d2\<rparr>)
      (key\<lparr>device := d3\<rparr>) head_size (cache\<lparr>device := d4\<rparr>) is_neox stream =
    vllm_ascend_rotary_embedding gd pf positions query key head_size cache is_neox stream)"
proof (intro conjI impI)
  assume ok: "npu_ok gd pf positions query key head_size cache"
  from npu_loop_cnt [OF ok, of is_neox stream] obtain c where
     c: "vllm_ascend_rotary_embedding gd pf positions query key head_size cache is_neox stream =
           (Inr (), stream @ [c])"
     "arg_num_tokens c = numel query sdiv int (fst (last (dims query)))"
     "0 \<le> arg_num_tokens c"
     "arg_aivNum c = to_uint32 (int (pf 0 ''aiv''))" "0 < arg_aivNum c"
     "arg_loop_cnt c =
       to_uint32 (int64_add (int64_add (arg_num_tokens c) (arg_aivNum c)) (- 1) sdiv arg_aivNum c)"
    by blast
  let ?ceil = "\<lceil>real_of_int (arg_num_tokens c) / real_of_int (arg_aivNum c)\<rceil>"
  from c(6) have raw: "arg_loop_cnt c =
         to_uint32 (to_int64 (to_int64 (arg_num_tokens c + arg_aivNum c) - 1) sdiv arg_aivNum c)"
    by (simp add: int64_add_def)
  have lc: "arg_loop_cnt c = to_uint32 ?ceil" if h: "arg_num_tokens c + arg_aivNum c < 2 ^ 63"
    using loop_sum_exact [OF c(3) c(5) h] c(6) ceil_div [OF c(5), of "arg_num_tokens c"] by simp
  from c(3,5) have "0 \<le> real_of_int (arg_num_tokens c) / real_of_int (arg_aivNum c)" by simp
  then have nn: "0 \<le> ?ceil" by (simp add: zero_le_ceiling)
  have ex: "arg_loop_cnt c = ?ceil"
    if h: "arg_num_tokens c + arg_aivNum c < 2 ^ 63 \<and> ?ceil < 2 ^ 32"
    using lc h nn by (simp add: to_uint32_id)
  from c(1,2,4) raw lc ex
  show "\<exists>c. vllm_ascend_rotary_embedding gd pf positions query key head_size cache is_neox stream =
           (Inr (), stream @ [c]) \<and>
       arg_num_tokens c = numel query sdiv int (fst (last (dims query))) \<and>
       arg_aivNum c = to_uint32 (int (pf 0 ''aiv'')) \<and>
       arg_loop_cnt c =
         to_uint32 (to_int64 (to_int64 (arg_num_tokens c + arg_aivNum c) - 1) sdiv arg_aivNum c) \<and>
       (arg_num_tokens c + arg_aivNum c < 2 ^ 63 \<longrightarrow>
          arg_loop_cnt c =
            to_uint32 \<lceil>real_of_int (arg_num_tokens c) / real_of_int (arg_aivNum c)\<rceil>) \<and>
       (arg_num_tokens c + arg_aivNum c < 2 ^ 63 \<and>
        \<lceil>real_of_int (arg_num_tokens c) / real_of_int (arg_aivNum c)\<rceil> < 2 ^ 32 \<longrightarrow>
          arg_loop_cnt c = \<lceil>real_of_int (arg_num_tokens c) / real_of_int (arg_aivNum c)\<rceil>)"
    by blast
next
  assume "pf' 0 ''aiv'' = pf 0 ''aiv''"
  then show "vllm_ascend_rotary_embedding gd pf' (positions\<lparr>device := d1\<rparr>) (query\<lparr>device := d2\<rparr>)
      (key\<lparr>device := d3\<rparr>) head_size (cache\<lparr>device := d4\<rparr>) is_neox stream =
    vllm_ascend_rotary_embedding gd pf positions query key head_size cache is_neox stream"
    by (simp add: vllm_ascend_rotary_embedding_def custom_handler_def tensor_size_def
        tensor_stride_def numel_def data_ptr_typed_def data_ptr_def)
qed

theorem loop_count_device_zero_witness:
  "npu_ok ex_get_dtype ex_platform ex_positions ex_query ex_key 4 ex_cache \<and>
   vllm_ascend_rotary_embedding ex_get_dtype ex_platform ex_positions ex_query ex_key 4
     ex_cache True [] = (Inr (), [ex_npu_call]) \<and>
   arg_aivNum ex_npu_call = to_uint32 (int (ex_platform 0 ''aiv'')) \<and>
   arg_num_tokens ex_npu_call + arg_aivNum ex_npu_call < 2 ^ 63 \<and>
   \<lceil>real_of_int (arg_num_tokens ex_npu_call) / real_of_int (arg_aivNum ex_npu_call)\<rceil> = 2 \<and>
   arg_loop_cnt ex_npu_call = 2 \<and>
   other_platform 0 ''aiv'' = ex_platform 0 ''aiv'' \<and>
   vllm_ascend_rotary_embedding ex_get_dtype other_platform (ex_positions\<lparr>device := 5\<rparr>)
     (ex_query\<lparr>device := 6\<rparr>) (ex_key\<lparr>device := 7\<rparr>) 4 (ex_cache\<lparr>device := 8\<rparr>) True [] =
   vllm_ascend_rotary_embedding ex_get_dtype ex_platform ex_positions ex_query
     ex_key 4 ex_cache True []"
proof -
  have nok: "npu_ok ex_get_dtype ex_platform ex_positions ex_query ex_key 4 ex_cache"
    by (simp add: npu_ok_def ex_defs to_uint32_def)
  have p: "other_platform 0 ''aiv'' = ex_platform 0 ''aiv''"
    by (simp add: other_platform_def ex_platform_def)
  have s: "arg_num_tokens ex_npu_call + arg_aivNum ex_npu_call < 2 ^ 63"
    by (simp add: ex_npu_call_def)
  have c: "\<lceil>real_of_int (arg_num_tokens ex_npu_call) / real_of_int (arg_aivNum ex_npu_call)\<rceil> = 2"
    by (simp add: ex_npu_call_def)
  note w = loop_count_device_zero [of ex_get_dtype ex_platform ex_positions ex_query ex_key 4
      ex_cache True "[]" other_platform 5 6 7 8]
  from w nok obtain k where k:
    "vllm_ascend_rotary_embedding ex_get_dtype ex_platform ex_positions ex_query ex_key 4
       ex_cache True [] = (Inr (), [] @ [k])"
    "arg_aivNum k = to_uint32 (int (ex_platform 0 ''aiv''))"
    "arg_num_tokens k + arg_aivNum k < 2 ^ 63 \<and>
     \<lceil>real_of_int (arg_num_tokens k) / real_of_int (arg_aivNum k)\<rceil> < 2 ^ 32 \<longrightarrow>
       arg_loop_cnt k = \<lceil>real_of_int (arg_num_tokens k) / real_of_int (arg_aivNum k)\<rceil>"
    by blast
  from k(1) ex_npu_run have ke: "k = ex_npu_call" by simp
  have c': "\<lceil>real_of_int (arg_num_tokens ex_npu_call) / real_of_int (arg_aivNum ex_npu_call)\<rceil> < 2 ^ 32"
    unfolding c by simp
  from k(2) ke have 1: "arg_aivNum ex_npu_call = to_uint32 (int (ex_platform 0 ''aiv''))"
    by blast
  from k(3) ke s c' have "arg_loop_cnt ex_npu_call =
      \<lceil>real_of_int (arg_num_tokens ex_npu_call) / real_of_int (arg_aivNum ex_npu_call)\<rceil>"
    by blast
  with c have lc2: "arg_loop_cnt ex_npu_call = 2" by simp
  from w p have 2: "vllm_ascend_rotary_embedding ex_get_dtype other_platform (ex_positions\<lparr>device := 5\<rparr>)
     (ex_query\<lparr>device := 6\<rparr>) (ex_key\<lparr>device := 7\<rparr>) 4 (ex_cache\<lparr>device := 8\<rparr>) True [] =
   vllm_ascend_rotary_embedding ex_get_dtype ex_platform ex_positions ex_query
     ex_key 4 ex_cache True []"
    by blast
  from nok ex_npu_run 1 s c lc2 p 2 show ?thesis by blast
qed

end
